theory Spec2Isabelle
  imports Complex_Main
begin

section \<open>Errors and hyper-parameters of the notebook\<close>

text \<open>
  The notebook \<^verbatim>\<open>RNNs.ipynb\<close> is a sequence of Python cells over a tensor library.
  Every exception the cells can raise is a value of \<open>error\<close>; a cell that may raise
  returns \<open>error + 'a\<close> with \<open>Inl\<close> for the exception.
\<close>

datatype error =
  IndexError | RuntimeError | ValueError | TypeError | ZeroDivisionError | AssertionError
  | AttributeError

definition embeddingSize :: nat where "embeddingSize = 100"
definition hiddenSize :: nat where "hiddenSize = 10"
definition dropoutRate :: real where "dropoutRate = 1 / 2"
definition numEpochs :: nat where "numEpochs = 5"
definition vocabSize :: nat where "vocabSize = 20002"
definition pad :: nat where "pad = 1"
definition unk :: nat where "unk = 0"

section \<open>batchAccuracy\<close>

text \<open>
  \<^verbatim>\<open>
  def batchAccuracy(preds, targets):
      roundedPreds = (preds >= 0)
      return (roundedPreds == targets).sum().item() / len(preds)
  \<close>
  \<open>preds\<close> is the one-dimensional tensor of logits of a batch (the forward pass
  followed by \<^verbatim>\<open>squeeze(1)\<close>), \<open>targets\<close> the one-dimensional tensor of labels.
  Logits and labels are modelled as real numbers.
\<close>

text \<open>\<^verbatim>\<open>preds >= 0\<close>: the element-wise comparison with the scalar zero.\<close>

definition ge_zero :: "real list \<Rightarrow> bool list" where
  "ge_zero preds = map (\<lambda>x. 0 \<le> x) preds"

text \<open>
  Broadcasting of two one-dimensional tensors, as the library does for an element-wise
  operator: equal sizes pair up, a size-one tensor is repeated, anything else raises.
\<close>

definition broadcast :: "'a list \<Rightarrow> 'b list \<Rightarrow> error + ('a \<times> 'b) list" where
  "broadcast xs ys =
     (if length xs = length ys then Inr (zip xs ys)
      else if length xs = 1 then Inr (zip (replicate (length ys) (hd xs)) ys)
      else if length ys = 1 then Inr (zip xs (replicate (length xs) (hd ys)))
      else Inl RuntimeError)"

text \<open>
  \<^verbatim>\<open>roundedPreds == targets\<close>: a boolean tensor compared with a float tensor; the
  boolean is promoted (\<open>True\<close> to 1, \<open>False\<close> to 0) and the comparison is element-wise.
\<close>

definition tensor_eq :: "bool list \<Rightarrow> real list \<Rightarrow> error + bool list" where
  "tensor_eq bs ts =
     (case broadcast bs ts of
        Inl e \<Rightarrow> Inl e
      | Inr ps \<Rightarrow> Inr (map (\<lambda>(b, t). (if b then 1 else 0) = t) ps))"

text \<open>\<^verbatim>\<open>.sum().item()\<close> of a boolean tensor: the number of true entries.\<close>

definition tensor_sum :: "bool list \<Rightarrow> nat" where
  "tensor_sum flags = length (filter (\<lambda>b. b) flags)"

definition batchAccuracy :: "real list \<Rightarrow> real list \<Rightarrow> error + real" where
  "batchAccuracy preds targets =
     (let roundedPreds = ge_zero preds in
      case tensor_eq roundedPreds targets of
        Inl e \<Rightarrow> Inl e
      | Inr flags \<Rightarrow>
          if length preds = 0 then Inl ZeroDivisionError
          else Inr (real (tensor_sum flags) / real (length preds)))"

section \<open>Model construction: \<^verbatim>\<open>MyRNN.__init__\<close>\<close>

text \<open>
  The three recurrent layer classes of the library the constructor chooses from.
  \<open>gates\<close> records the cell each class implements, as the library documents it:
  \<^verbatim>\<open>nn.RNN\<close> is the plain recurrence \<open>h' = tanh (W x + U h + b)\<close> without gates,
  \<^verbatim>\<open>nn.GRU\<close> has a reset and an update gate, \<^verbatim>\<open>nn.LSTM\<close> has a forget, an input
  and an output gate and a separate cell state.
\<close>

datatype cell_kind = nn_RNN | nn_GRU | nn_LSTM

datatype gate = ResetGate | UpdateGate | ForgetGate | InputGate | OutputGate

fun gates :: "cell_kind \<Rightarrow> gate list" where
  "gates nn_RNN = []"
| "gates nn_GRU = [ResetGate, UpdateGate]"
| "gates nn_LSTM = [ForgetGate, InputGate, OutputGate]"

record Embedding =
  num_embeddings :: nat
  embedding_dim :: nat
  padding_idx :: "nat option"

record Recurrent =
  kind :: cell_kind
  input_size :: nat
  hidden_size :: nat
  bidirectional :: bool

record Linear =
  in_features :: nat
  out_features :: nat

text \<open>
  The learnable parameters of a model, by position: \<open>EmbedW i j\<close> is entry \<open>(i, j)\<close> of
  \<^verbatim>\<open>embed.weight\<close>; \<open>RnnP k\<close> is the \<open>k\<close>-th scalar of the recurrent layer's weights
  and biases; \<open>DenseP k\<close> is the \<open>k\<close>-th weight of the linear layer for
  \<open>k < in_features\<close> and its bias for \<open>k = in_features\<close>.
\<close>

datatype param = EmbedW nat nat | RnnP nat | DenseP nat

record MyRNN =
  name :: string
  LSTM :: bool
  bidir :: bool
  embed :: Embedding
  rnn :: Recurrent
  dense :: Linear
  dropout :: real
  weights :: "param \<Rightarrow> real"
  grads :: "param \<Rightarrow> real"
  training :: bool

text \<open>
  The library constructors. \<^verbatim>\<open>nn.Embedding\<close> asserts that the padding index is
  within the table; \<^verbatim>\<open>nn.RNN\<close> and \<^verbatim>\<open>nn.GRU\<close> are called without
  \<^verbatim>\<open>bidirectional\<close>, whose default is \<open>False\<close>.
\<close>

definition nn_Embedding :: "nat \<Rightarrow> nat \<Rightarrow> nat \<Rightarrow> error + Embedding" where
  "nn_Embedding n d pidx =
     (if pidx < n then Inr \<lparr>num_embeddings = n, embedding_dim = d, padding_idx = Some pidx\<rparr>
      else Inl AssertionError)"

definition nn_Recurrent :: "cell_kind \<Rightarrow> nat \<Rightarrow> nat \<Rightarrow> bool \<Rightarrow> Recurrent" where
  "nn_Recurrent c i h b = \<lparr>kind = c, input_size = i, hidden_size = h, bidirectional = b\<rparr>"

definition nn_Linear :: "nat \<Rightarrow> nat \<Rightarrow> Linear" where
  "nn_Linear i out = \<lparr>in_features = i, out_features = out\<rparr>"

text \<open>Sequencing of cells that may raise: the first exception ends the computation.\<close>

definition bindE :: "error + 'a \<Rightarrow> ('a \<Rightarrow> error + 'b) \<Rightarrow> error + 'b" where
  "bindE r f = (case r of Inl e \<Rightarrow> Inl e | Inr x \<Rightarrow> f x)"

text \<open>
  \<^verbatim>\<open>
  def __init__(self, model):
      super().__init__()
      self.name = model
      self.LSTM = (model == 'LSTM' or model == 'BiLSTM')
      self.bidir = (model == 'BiLSTM')
      self.embed = nn.Embedding(vocabSize, embeddingSize, padding_idx = pad)
      if model == 'RNN':
          self.rnn = nn.RNN(embeddingSize, hiddenSize)
      elif model == 'GRU':
          self.rnn = nn.GRU(embeddingSize, hiddenSize)
      else:
          self.rnn = nn.LSTM(embeddingSize, hiddenSize, bidirectional=self.bidir)
      self.dense = nn.Linear(hiddenSize * (2 if self.bidir else 1), 1)
      self.dropout = nn.Dropout(dropoutRate)
  \<close>
  \<open>init\<close> stands for the values the library's random initialisers leave in the
  parameters. A new module is in training mode and has no gradients yet.
\<close>

definition MyRNN_init :: "(param \<Rightarrow> real) \<Rightarrow> string \<Rightarrow> error + MyRNN" where
  "MyRNN_init init model =
     (let self_LSTM = (model = ''LSTM'' \<or> model = ''BiLSTM'');
          self_bidir = (model = ''BiLSTM'')
      in bindE (nn_Embedding vocabSize embeddingSize pad) (\<lambda>self_embed.
         let self_rnn =
               (if model = ''RNN'' then nn_Recurrent nn_RNN embeddingSize hiddenSize False
                else if model = ''GRU'' then nn_Recurrent nn_GRU embeddingSize hiddenSize False
                else nn_Recurrent nn_LSTM embeddingSize hiddenSize self_bidir);
             self_dense = nn_Linear (hiddenSize * (if self_bidir then 2 else 1)) 1
         in Inr \<lparr>name = model, LSTM = self_LSTM, bidir = self_bidir, embed = self_embed,
                 rnn = self_rnn, dense = self_dense, dropout = dropoutRate,
                 weights = init, grads = (\<lambda>k. 0), training = True\<rparr>))"

section \<open>Loading the pretrained vectors\<close>

text \<open>
  The pretrained matrix \<^verbatim>\<open>reviewVocabVectors\<close>: a two-dimensional tensor with its
  shape and its entries.
\<close>

record matrix =
  nrows :: nat
  ncols :: nat
  entry :: "nat \<Rightarrow> nat \<Rightarrow> real"

text \<open>
  \<^verbatim>\<open>model.embed.weight.data.copy_(src)\<close>: the source is broadcast to the shape of the
  table (a dimension of size one is repeated); any other shape raises.
\<close>

definition embed_weight_copy :: "matrix \<Rightarrow> MyRNN \<Rightarrow> error + MyRNN" where
  "embed_weight_copy src m =
     (let V = num_embeddings (embed m); E = embedding_dim (embed m) in
      if (nrows src = V \<or> nrows src = 1) \<and> (ncols src = E \<or> ncols src = 1)
      then Inr (m\<lparr>weights :=
                  (\<lambda>k. case k of
                          EmbedW i j \<Rightarrow>
                            if i < V \<and> j < E
                            then entry src (if nrows src = 1 then 0 else i)
                                           (if ncols src = 1 then 0 else j)
                            else weights m k
                        | _ \<Rightarrow> weights m k)\<rparr>)
      else Inl RuntimeError)"

text \<open>\<^verbatim>\<open>torch.zeros(n)\<close>.\<close>

definition zeros :: "nat \<Rightarrow> real list" where
  "zeros n = replicate n 0"

text \<open>
  \<^verbatim>\<open>model.embed.weight.data[i] = row\<close>: the row index must be within the table, and
  the assigned vector must have the table's width (or size one).
\<close>

definition embed_weight_set_row :: "nat \<Rightarrow> real list \<Rightarrow> MyRNN \<Rightarrow> error + MyRNN" where
  "embed_weight_set_row i row m =
     (let V = num_embeddings (embed m); E = embedding_dim (embed m) in
      if \<not> i < V then Inl IndexError
      else if length row = E \<or> length row = 1
      then Inr (m\<lparr>weights :=
                  (\<lambda>k. case k of
                          EmbedW i' j \<Rightarrow>
                            if i' = i \<and> j < E
                            then (if length row = 1 then row ! 0 else row ! j)
                            else weights m k
                        | _ \<Rightarrow> weights m k)\<rparr>)
      else Inl RuntimeError)"

text \<open>
  \<^verbatim>\<open>
  for model in models:
      if model is None:
          continue
      model.embed.weight.data.copy_(reviewVocabVectors)
      model.embed.weight.data[unk] = torch.zeros(embeddingSize)
      model.embed.weight.data[pad] = torch.zeros(embeddingSize)
  \<close>
  \<open>load_pretrained\<close> is the body of the loop for one model, \<open>load_all\<close> the loop.
\<close>

definition load_pretrained :: "matrix \<Rightarrow> MyRNN \<Rightarrow> error + MyRNN" where
  "load_pretrained reviewVocabVectors model =
     bindE (embed_weight_copy reviewVocabVectors model) (\<lambda>m1.
     bindE (embed_weight_set_row unk (zeros embeddingSize) m1) (\<lambda>m2.
     embed_weight_set_row pad (zeros embeddingSize) m2))"

fun load_all :: "matrix \<Rightarrow> MyRNN option list \<Rightarrow> error + MyRNN option list" where
  "load_all reviewVocabVectors [] = Inr []"
| "load_all reviewVocabVectors (None # models) =
     bindE (load_all reviewVocabVectors models) (\<lambda>ms. Inr (None # ms))"
| "load_all reviewVocabVectors (Some model # models) =
     bindE (load_pretrained reviewVocabVectors model) (\<lambda>m.
     bindE (load_all reviewVocabVectors models) (\<lambda>ms. Inr (Some m # ms)))"

section \<open>Tensors and the numerical library\<close>

text \<open>
  A tensor is its shape and its entries by index. A Python value that flows through
  \<^verbatim>\<open>forward\<close> is a tensor or a pair (the recurrent layer \<^verbatim>\<open>nn.LSTM\<close> returns
  the pair of its final hidden and cell states).
\<close>

record tensor =
  shape :: "nat list"
  val :: "nat list \<Rightarrow> real"

datatype pyval = Tensor tensor | Tuple pyval pyval

text \<open>
  A packed sequence, kept as the padded tensor it was packed from together with the
  true lengths of its examples.
\<close>

record packed =
  padded :: tensor
  lengths :: "nat list"

text \<open>
  The parts of the numerical library whose arithmetic is not part of the notebook are
  parameters of the model. \<open>'g\<close> is the state of the library's global random
  generator.
  \<^item> \<open>manual_seed\<close>: the generator state after \<^verbatim>\<open>torch.manual_seed(n)\<close>;
  \<^item> \<open>bernoulli g q s\<close>: a random mask of shape \<open>s\<close> whose entries are kept with
    probability \<open>q\<close>, and the generator state after drawing it;
  \<^item> \<open>recurrent r w x\<close>: the entries of the output, of the final hidden states
    \<^verbatim>\<open>h_n\<close> and of the final cell states \<^verbatim>\<open>c_n\<close> that the recurrent layer \<open>r\<close>
    with parameters \<open>w\<close> computes on the packed input \<open>x\<close>;
  \<^item> \<open>grad_embedded\<close> and \<open>grad_params\<close>: what back-propagation of the loss of one
    training step yields, for the generator state, model and batch the step started
    from: the gradient with respect to the output of the embedding lookup (by position
    \<open>[t, b, j]\<close>), and the gradients of the recurrent and linear parameters.
\<close>

record 'g backend =
  manual_seed :: "nat \<Rightarrow> 'g"
  bernoulli :: "'g \<Rightarrow> real \<Rightarrow> nat list \<Rightarrow> (nat list \<Rightarrow> bool) \<times> 'g"
  recurrent :: "Recurrent \<Rightarrow> (param \<Rightarrow> real) \<Rightarrow> packed
                  \<Rightarrow> (nat list \<Rightarrow> real) \<times> (nat list \<Rightarrow> real) \<times> (nat list \<Rightarrow> real)"
  grad_embedded :: "'g \<Rightarrow> MyRNN \<Rightarrow> nat list list \<times> nat list \<Rightarrow> real list
                  \<Rightarrow> nat list \<Rightarrow> real"
  grad_params :: "'g \<Rightarrow> MyRNN \<Rightarrow> nat list list \<times> nat list \<Rightarrow> real list
                  \<Rightarrow> param \<Rightarrow> real"

text \<open>
  The token tensor \<^verbatim>\<open>text\<close> has the sequence axis first: a list of time steps, each
  the list of the tokens of the batch at that step.
\<close>

definition text_shape :: "nat list list \<Rightarrow> nat list" where
  "text_shape text = [length text, (case text of [] \<Rightarrow> 0 | row # _ \<Rightarrow> length row)]"

text \<open>\<^verbatim>\<open>self.embed(text)\<close>: a token outside the table raises.\<close>

definition embedding_fwd :: "Embedding \<Rightarrow> (param \<Rightarrow> real) \<Rightarrow> nat list list \<Rightarrow> error + tensor" where
  "embedding_fwd e w text =
     (if list_all (list_all (\<lambda>tok. tok < num_embeddings e)) text
      then Inr \<lparr>shape = text_shape text @ [embedding_dim e],
                val = (\<lambda>idx. case idx of
                                [t, b, j] \<Rightarrow> w (EmbedW (text ! t ! b) j)
                              | _ \<Rightarrow> 0)\<rparr>
      else Inl IndexError)"

text \<open>
  \<^verbatim>\<open>self.dropout(x)\<close>: in training mode each entry is zeroed with probability
  \<open>dropout\<close> and the others are scaled by \<open>1 / (1 - dropout)\<close>; in evaluation mode
  the input is returned as it is and the generator is not touched.
\<close>

definition dropout_fwd :: "'g backend \<Rightarrow> MyRNN \<Rightarrow> pyval \<Rightarrow> 'g \<Rightarrow> error + pyval \<times> 'g" where
  "dropout_fwd be self x g =
     (case x of
        Tuple _ _ \<Rightarrow> Inl TypeError
      | Tensor t \<Rightarrow>
          if training self
          then (let (mask, g') = bernoulli be g (1 - dropout self) (shape t)
                in Inr (Tensor (t\<lparr>val := (\<lambda>i. if mask i then val t i / (1 - dropout self) else 0)\<rparr>), g'))
          else Inr (Tensor t, g))"

text \<open>
  \<^verbatim>\<open>nn.utils.rnn.pack_padded_sequence(embedded, textLengths)\<close> with the defaults
  (sequence axis first, lengths sorted): the input must not be empty, there must be one
  length per example, no length may be zero and the lengths must be decreasing.
\<close>

definition pack_padded_sequence :: "pyval \<Rightarrow> nat list \<Rightarrow> error + packed" where
  "pack_padded_sequence x lens =
     (case x of
        Tuple _ _ \<Rightarrow> Inl TypeError
      | Tensor t \<Rightarrow>
          (case shape t of
             L # B # rest \<Rightarrow>
               if prod_list (shape t) = 0 then Inl RuntimeError
               else if length lens \<noteq> B then Inl RuntimeError
               else if last lens = 0 then Inl RuntimeError
               else if \<not> sorted (rev lens) then Inl RuntimeError
               else Inr \<lparr>padded = t, lengths = lens\<rparr>
           | _ \<Rightarrow> Inl IndexError))"

text \<open>
  \<^verbatim>\<open>self.rnn(packedEmbedded)\<close> for a single-layer recurrent module: the feature width
  of the input must be the layer's \<open>input_size\<close>, and a length beyond the padded length
  leaves the packed data shorter than its batch sizes announce, on which the layer
  raises. The final hidden state has shape (directions, batch, hidden); \<^verbatim>\<open>nn.LSTM\<close>
  returns it paired with the final cell state of the same shape.
\<close>

definition rnn_fwd :: "'g backend \<Rightarrow> Recurrent \<Rightarrow> (param \<Rightarrow> real) \<Rightarrow> packed
    \<Rightarrow> error + packed \<times> pyval" where
  "rnn_fwd be r w pk =
     (case shape (padded pk) of
        [L, B, E] \<Rightarrow>
          if E \<noteq> input_size r then Inl RuntimeError
          else if \<not> list_all (\<lambda>l. l \<le> L) (lengths pk) then Inl RuntimeError
          else
            (let D = (if bidirectional r then 2 else 1);
                 H = hidden_size r;
                 (out, hn, cn) = recurrent be r w pk;
                 output = \<lparr>padded = \<lparr>shape = [L, B, D * H], val = out\<rparr>, lengths = lengths pk\<rparr>;
                 h_n = Tensor \<lparr>shape = [D, B, H], val = hn\<rparr>;
                 c_n = Tensor \<lparr>shape = [D, B, H], val = cn\<rparr>
             in Inr (output, (case kind r of nn_LSTM \<Rightarrow> Tuple h_n c_n | _ \<Rightarrow> h_n)))
      | _ \<Rightarrow> Inl RuntimeError)"

text \<open>\<open>select0 k t\<close> is \<^verbatim>\<open>t[k]\<close> for an index within the first axis.\<close>

definition select0 :: "nat \<Rightarrow> tensor \<Rightarrow> tensor" where
  "select0 k t = \<lparr>shape = tl (shape t), val = (\<lambda>i. val t (k # i))\<rparr>"

text \<open>
  The tuple assignment \<^verbatim>\<open>(hidden, cell) = v\<close>: a pair gives its components; a tensor
  is iterated along its first axis, which must then have size two.
\<close>

definition unpack2 :: "pyval \<Rightarrow> error + pyval \<times> pyval" where
  "unpack2 v =
     (case v of
        Tuple a b \<Rightarrow> Inr (a, b)
      | Tensor t \<Rightarrow>
          (case shape t of
             [] \<Rightarrow> Inl TypeError
           | d # _ \<Rightarrow>
               if d = 2 then Inr (Tensor (select0 0 t), Tensor (select0 1 t))
               else Inl ValueError))"

text \<open>
  \<^verbatim>\<open>nn.utils.rnn.pad_packed_sequence(packedOutput)\<close>: the padded output, as long as
  the longest example, and the lengths.
\<close>

definition pad_packed_sequence :: "packed \<Rightarrow> tensor \<times> nat list" where
  "pad_packed_sequence pk =
     (padded pk\<lparr>shape := (case lengths pk of [] \<Rightarrow> 0 | l # _ \<Rightarrow> l) # tl (shape (padded pk))\<rparr>,
      lengths pk)"

text \<open>\<^verbatim>\<open>hidden[0]\<close>: the first component of a pair, the first slice of a tensor.\<close>

definition index0 :: "pyval \<Rightarrow> error + pyval" where
  "index0 v =
     (case v of
        Tuple a b \<Rightarrow> Inr a
      | Tensor t \<Rightarrow>
          (case shape t of
             [] \<Rightarrow> Inl IndexError
           | d # _ \<Rightarrow> if 0 < d then Inr (Tensor (select0 0 t)) else Inl IndexError))"

text \<open>
  \<^verbatim>\<open>hidden[-k,:,:]\<close>: the \<open>k\<close>-th slice from the end of the first axis of a tensor
  with at least three axes; a pair cannot be indexed so.
\<close>

definition index_from_end :: "nat \<Rightarrow> pyval \<Rightarrow> error + pyval" where
  "index_from_end k v =
     (case v of
        Tuple _ _ \<Rightarrow> Inl TypeError
      | Tensor t \<Rightarrow>
          (case shape t of
             d # _ # _ # _ \<Rightarrow> if k \<le> d then Inr (Tensor (select0 (d - k) t)) else Inl IndexError
           | _ \<Rightarrow> Inl IndexError))"

text \<open>
  \<^verbatim>\<open>torch.cat((a, b), dim = 1)\<close>: the two tensors must agree on every axis but the
  second; entry \<open>(i, j)\<close> of the result is \<open>a (i, j)\<close> for \<open>j\<close> within the width of
  \<open>a\<close> and \<open>b (i, j - width a)\<close> beyond.
\<close>

definition torch_cat1 :: "pyval \<Rightarrow> pyval \<Rightarrow> error + pyval" where
  "torch_cat1 x y =
     (case (x, y) of
        (Tensor a, Tensor b) \<Rightarrow>
          (case (shape a, shape b) of
             (a0 # a1 # as, b0 # b1 # bs) \<Rightarrow>
               if a0 = b0 \<and> as = bs
               then Inr (Tensor \<lparr>shape = a0 # (a1 + b1) # as,
                                 val = (\<lambda>idx. case idx of
                                            i # j # is \<Rightarrow>
                                              if j < a1 then val a (i # j # is)
                                              else val b (i # (j - a1) # is)
                                          | _ \<Rightarrow> 0)\<rparr>)
               else Inl RuntimeError
           | _ \<Rightarrow> Inl IndexError)
      | _ \<Rightarrow> Inl TypeError)"

text \<open>
  \<^verbatim>\<open>self.dense(x)\<close>, the linear layer: the last axis of the input must have
  \<open>in_features\<close> entries; output unit \<open>u\<close> is the weighted sum of the input features
  with the weights \<open>DenseP (u * in_features + j)\<close> plus the bias
  \<open>DenseP (out_features * in_features + u)\<close>.
\<close>

definition linear_fwd :: "Linear \<Rightarrow> (param \<Rightarrow> real) \<Rightarrow> pyval \<Rightarrow> error + pyval" where
  "linear_fwd l w x =
     (case x of
        Tuple _ _ \<Rightarrow> Inl TypeError
      | Tensor t \<Rightarrow>
          if shape t \<noteq> [] \<and> last (shape t) = in_features l
          then Inr (Tensor
                 \<lparr>shape = butlast (shape t) @ [out_features l],
                  val = (\<lambda>idx. (\<Sum>j < in_features l.
                                   w (DenseP (last idx * in_features l + j)) * val t (butlast idx @ [j]))
                               + w (DenseP (out_features l * in_features l + last idx)))\<rparr>)
          else Inl RuntimeError)"

section \<open>The forward pass: \<^verbatim>\<open>MyRNN.forward\<close>\<close>

text \<open>
  The call of the recurrent layer:
  \<^verbatim>\<open>
  if self.LSTM:
      packedOutput, (hidden, cell) = self.rnn(packedEmbedded)
  else:
      packedOutput, hidden = self.rnn(packedEmbedded)
  \<close>
\<close>

definition run_rnn :: "'g backend \<Rightarrow> MyRNN \<Rightarrow> packed \<Rightarrow> error + packed \<times> pyval" where
  "run_rnn be self packedEmbedded =
     (if LSTM self
      then bindE (rnn_fwd be (rnn self) (weights self) packedEmbedded) (\<lambda>(packedOutput, hc).
           bindE (unpack2 hc) (\<lambda>(hidden, cell). Inr (packedOutput, hidden)))
      else rnn_fwd be (rnn self) (weights self) packedEmbedded)"

text \<open>
  The selection of the representation that is fed to the classifier:
  \<^verbatim>\<open>
  if self.bidir:
      hidden = torch.cat((hidden[-2,:,:], hidden[-1,:,:]), dim = 1)
  else:
      hidden = hidden[0]
  \<close>
\<close>

definition select_hidden :: "MyRNN \<Rightarrow> pyval \<Rightarrow> error + pyval" where
  "select_hidden self hidden =
     (if bidir self
      then bindE (index_from_end 2 hidden) (\<lambda>a.
           bindE (index_from_end 1 hidden) (\<lambda>b.
           torch_cat1 a b))
      else index0 hidden)"

text \<open>
  \<^verbatim>\<open>
  def forward(self, text, textLengths):
      embedded = self.dropout(self.embed(text))
      packedEmbedded = nn.utils.rnn.pack_padded_sequence(embedded, textLengths)
      if self.LSTM:
          packedOutput, (hidden, cell) = self.rnn(packedEmbedded)
      else:
          packedOutput, hidden = self.rnn(packedEmbedded)
      output, outputLengths = nn.utils.rnn.pad_packed_sequence(packedOutput)
      if self.bidir:
          hidden = torch.cat((hidden[-2,:,:], hidden[-1,:,:]), dim = 1)
      else:
          hidden = hidden[0]
      return self.dense(self.dropout(hidden))
  \<close>
  The result comes with the state of the random generator after the two dropouts.
\<close>

definition forward :: "'g backend \<Rightarrow> MyRNN \<Rightarrow> nat list list \<Rightarrow> nat list \<Rightarrow> 'g
    \<Rightarrow> error + pyval \<times> 'g" where
  "forward be self text textLengths g =
     bindE (embedding_fwd (embed self) (weights self) text) (\<lambda>e.
     bindE (dropout_fwd be self (Tensor e) g) (\<lambda>(embedded, g1).
     bindE (pack_padded_sequence embedded textLengths) (\<lambda>packedEmbedded.
     bindE (run_rnn be self packedEmbedded) (\<lambda>(packedOutput, hidden).
     let (output, outputLengths) = pad_packed_sequence packedOutput in
     bindE (select_hidden self hidden) (\<lambda>selected.
     bindE (dropout_fwd be self selected g1) (\<lambda>(dropped, g2).
     bindE (linear_fwd (dense self) (weights self) dropped) (\<lambda>out.
     Inr (out, g2))))))))"

section \<open>Loss, gradients and the optimizer\<close>

text \<open>
  A batch of an iterator: \<^verbatim>\<open>batch[0]\<close> is the pair of the padded token tensor and
  the true lengths, \<^verbatim>\<open>batch[1]\<close> the labels.
\<close>

record batch =
  seqs :: "nat list list"
  seq_lens :: "nat list"
  labels :: "real list"

text \<open>
  \<^verbatim>\<open>x.squeeze(1)\<close>: the second axis is removed when its size is one; a tensor without
  a second axis raises.
\<close>

definition squeeze1 :: "pyval \<Rightarrow> error + tensor" where
  "squeeze1 v =
     (case v of
        Tuple _ _ \<Rightarrow> Inl AttributeError
      | Tensor t \<Rightarrow>
          (case shape t of
             d0 # d1 # rest \<Rightarrow>
               if d1 = 1
               then Inr \<lparr>shape = d0 # rest,
                         val = (\<lambda>idx. case idx of [] \<Rightarrow> 0 | i # is \<Rightarrow> val t (i # 0 # is))\<rparr>
               else Inr t
           | _ \<Rightarrow> Inl IndexError))"

text \<open>The entries of a one-dimensional tensor, in order.\<close>

definition entries :: "tensor \<Rightarrow> real list" where
  "entries t = map (\<lambda>i. val t [i]) [0 ..< (case shape t of [] \<Rightarrow> 0 | n # _ \<Rightarrow> n)]"

text \<open>
  \<^verbatim>\<open>criterion = nn.BCEWithLogitsLoss()\<close>: the target must have the size of the input,
  and the loss is the mean over the batch of the binary cross entropy of the logit \<open>x\<close>
  against the label \<open>y\<close>, in the library's form \<open>max x 0 - x * y + ln (1 + exp (- |x|))\<close>.
  Both loops reach it after a forward pass only, so never on an empty batch.
\<close>

definition bce_with_logits :: "real \<Rightarrow> real \<Rightarrow> real" where
  "bce_with_logits x y = max x 0 - x * y + ln (1 + exp (- \<bar>x\<bar>))"

definition criterion :: "tensor \<Rightarrow> real list \<Rightarrow> error + real" where
  "criterion input target =
     (if shape input \<noteq> [length target] then Inl ValueError
      else Inr ((\<Sum>i < length target. bce_with_logits (val input [i]) (target ! i))
                / real (length target)))"

text \<open>
  The gradient of the embedding table, given the gradient \<open>up\<close> of the loss with respect
  to the looked-up vectors: row \<open>i\<close> collects the gradients of the positions that hold
  token \<open>i\<close>, and the row of the padding index gets no gradient.
\<close>

definition embedding_backward :: "Embedding \<Rightarrow> nat list list \<Rightarrow> (nat list \<Rightarrow> real)
    \<Rightarrow> nat \<Rightarrow> nat \<Rightarrow> real" where
  "embedding_backward e text up i j =
     (if padding_idx e = Some i then 0
      else sum_list (map (\<lambda>(t, row).
             sum_list (map (\<lambda>(b, tok). if tok = i then up [t, b, j] else 0) (enumerate 0 row)))
             (enumerate 0 text)))"

text \<open>\<^verbatim>\<open>optimizer.zero_grad()\<close> and \<^verbatim>\<open>loss.backward()\<close>, which adds to the gradients.\<close>

definition zero_grad :: "MyRNN \<Rightarrow> MyRNN" where
  "zero_grad m = m\<lparr>grads := (\<lambda>k. 0)\<rparr>"

definition loss_backward :: "'g backend \<Rightarrow> 'g \<Rightarrow> MyRNN \<Rightarrow> batch \<Rightarrow> MyRNN" where
  "loss_backward be g m b =
     m\<lparr>grads :=
         (\<lambda>k. grads m k +
               (case k of
                  EmbedW i j \<Rightarrow>
                    embedding_backward (embed m) (seqs b)
                      (grad_embedded be g m (seqs b, seq_lens b) (labels b)) i j
                | _ \<Rightarrow> grad_params be g m (seqs b, seq_lens b) (labels b) k))\<rparr>"

text \<open>
  \<^verbatim>\<open>torch.optim.Adam(model.parameters())\<close> with the library's defaults: learning rate
  \<open>10\<^sup>-\<^sup>3\<close>, decay rates 0.9 and 0.999, \<open>\<epsilon> = 10\<^sup>-\<^sup>8\<close>, no weight decay. The state
  is the number of steps taken and the two running averages, which start at zero.
\<close>

record adam =
  step_count :: nat
  exp_avg :: "param \<Rightarrow> real"
  exp_avg_sq :: "param \<Rightarrow> real"

definition Adam :: adam where
  "Adam = \<lparr>step_count = 0, exp_avg = (\<lambda>k. 0), exp_avg_sq = (\<lambda>k. 0)\<rparr>"

definition adam_lr :: real where "adam_lr = 1 / 1000"
definition adam_beta1 :: real where "adam_beta1 = 9 / 10"
definition adam_beta2 :: real where "adam_beta2 = 999 / 1000"
definition adam_eps :: real where "adam_eps = 1 / 10 ^ 8"

text \<open>\<^verbatim>\<open>optimizer.step()\<close>: one update of every parameter from its gradient.\<close>

definition optimizer_step :: "adam \<Rightarrow> MyRNN \<Rightarrow> adam \<times> MyRNN" where
  "optimizer_step opt m =
     (let t = step_count opt + 1;
          avg = (\<lambda>k. adam_beta1 * exp_avg opt k + (1 - adam_beta1) * grads m k);
          avg_sq = (\<lambda>k. adam_beta2 * exp_avg_sq opt k + (1 - adam_beta2) * (grads m k)\<^sup>2);
          bias_correction1 = 1 - adam_beta1 ^ t;
          bias_correction2 = 1 - adam_beta2 ^ t;
          step_size = adam_lr / bias_correction1
      in (\<lparr>step_count = t, exp_avg = avg, exp_avg_sq = avg_sq\<rparr>,
          m\<lparr>weights :=
              (\<lambda>k. weights m k
                    - step_size * (avg k / (sqrt (avg_sq k) / sqrt bias_correction2 + adam_eps)))\<rparr>))"

section \<open>The training loop\<close>

text \<open>
  The state of the training cell while one model is trained: the model, its optimizer,
  the random generator and the loss accumulated in the current epoch.
\<close>

record 'g train_state =
  model :: MyRNN
  optimizer :: adam
  gen :: 'g
  epochLoss :: real

text \<open>
  The body of the loop over the batches:
  \<^verbatim>\<open>
  optimizer.zero_grad()
  text, textLen = batch[0]
  predictions = model(text, textLen).squeeze(1)
  loss = criterion(predictions, batch[1])
  loss.backward()
  optimizer.step()
  epochLoss += loss.item()
  \<close>
\<close>

definition train_batch :: "'g backend \<Rightarrow> batch \<Rightarrow> 'g train_state \<Rightarrow> error + 'g train_state" where
  "train_batch be b s =
     (let m0 = zero_grad (model s) in
      bindE (forward be m0 (seqs b) (seq_lens b) (gen s)) (\<lambda>(out, g1).
      bindE (squeeze1 out) (\<lambda>predictions.
      bindE (criterion predictions (labels b)) (\<lambda>loss.
      let m1 = loss_backward be (gen s) m0 b;
          (opt, m2) = optimizer_step (optimizer s) m1
      in Inr \<lparr>model = m2, optimizer = opt, gen = g1, epochLoss = epochLoss s + loss\<rparr>))))"

fun train_batches :: "'g backend \<Rightarrow> batch list \<Rightarrow> 'g train_state \<Rightarrow> error + 'g train_state" where
  "train_batches be [] s = Inr s"
| "train_batches be (b # bs) s = bindE (train_batch be b s) (train_batches be bs)"

text \<open>
  \<^verbatim>\<open>
  for epoch in range(numEpochs):
      epochLoss = 0
      for batch in trainIterator:
          ...
      print(f'Model: {model.name}, Epoch: {epoch + 1}, Train Loss: {epochLoss / len(trainIterator)}')
  \<close>
  \<open>train_epochs n\<close> runs \<open>n\<close> epochs and returns the state with the printed mean losses;
  the division raises on an iterator without batches.
\<close>

fun train_epochs :: "'g backend \<Rightarrow> batch list \<Rightarrow> nat \<Rightarrow> 'g train_state
    \<Rightarrow> error + 'g train_state \<times> real list" where
  "train_epochs be trainIterator 0 s = Inr (s, [])"
| "train_epochs be trainIterator (Suc n) s =
     bindE (train_batches be trainIterator (s\<lparr>epochLoss := 0\<rparr>)) (\<lambda>s1.
     if length trainIterator = 0 then Inl ZeroDivisionError
     else bindE (train_epochs be trainIterator n s1) (\<lambda>(s2, printed).
          Inr (s2, (epochLoss s1 / real (length trainIterator)) # printed)))"

text \<open>
  The body of the loop over the models:
  \<^verbatim>\<open>
  torch.manual_seed(0)
  optimizer = torch.optim.Adam(model.parameters())
  for epoch in range(numEpochs):
      ...
  \<close>
\<close>

definition train_model :: "'g backend \<Rightarrow> batch list \<Rightarrow> MyRNN \<Rightarrow> error + 'g train_state \<times> real list" where
  "train_model be trainIterator m =
     train_epochs be trainIterator numEpochs
       \<lparr>model = m, optimizer = Adam, gen = manual_seed be 0, epochLoss = 0\<rparr>"

text \<open>\<^verbatim>\<open>model.train()\<close> and \<^verbatim>\<open>model.eval()\<close> set the mode of the module.\<close>

definition model_train :: "MyRNN \<Rightarrow> MyRNN" where
  "model_train m = m\<lparr>training := True\<rparr>"

definition model_eval :: "MyRNN \<Rightarrow> MyRNN" where
  "model_eval m = m\<lparr>training := False\<rparr>"

text \<open>
  The training cell: every model is put in training mode, then each one is trained;
  \<^verbatim>\<open>None\<close> entries are skipped. The result is the list of the trained models with
  the lines printed for each.
\<close>

fun train_loop :: "'g backend \<Rightarrow> batch list \<Rightarrow> MyRNN option list
    \<Rightarrow> error + (MyRNN option \<times> real list) list" where
  "train_loop be trainIterator [] = Inr []"
| "train_loop be trainIterator (None # models) =
     bindE (train_loop be trainIterator models) (\<lambda>rs. Inr ((None, []) # rs))"
| "train_loop be trainIterator (Some m # models) =
     bindE (train_model be trainIterator m) (\<lambda>(s, printed).
     bindE (train_loop be trainIterator models) (\<lambda>rs. Inr ((Some (model s), printed) # rs)))"

definition train_all :: "'g backend \<Rightarrow> batch list \<Rightarrow> MyRNN option list
    \<Rightarrow> error + (MyRNN option \<times> real list) list" where
  "train_all be trainIterator models =
     train_loop be trainIterator (map (map_option model_train) models)"

section \<open>The evaluation loop\<close>

text \<open>
  The loop over the batches of the evaluation cell, with the accumulated accuracy and
  the random generator as its state:
  \<^verbatim>\<open>
  for batch in testIterator:
      text, textLen = batch[0]
      predictions = model(text, textLen).squeeze(1)
      loss = criterion(predictions, batch[1])
      acc = batchAccuracy(predictions, batch[1])
      accuracy += acc
  \<close>
\<close>

fun eval_batches :: "'g backend \<Rightarrow> MyRNN \<Rightarrow> batch list \<Rightarrow> real \<times> 'g \<Rightarrow> error + real \<times> 'g" where
  "eval_batches be m [] s = Inr s"
| "eval_batches be m (b # bs) (accuracy, g) =
     bindE (forward be m (seqs b) (seq_lens b) g) (\<lambda>(out, g1).
     bindE (squeeze1 out) (\<lambda>predictions.
     bindE (criterion predictions (labels b)) (\<lambda>loss.
     bindE (batchAccuracy (entries predictions) (labels b)) (\<lambda>acc.
     eval_batches be m bs (accuracy + acc, g1)))))"

text \<open>
  The body of the loop over the models; the printed percentage is returned:
  \<^verbatim>\<open>
  accuracy = 0.0
  for batch in testIterator:
      ...
  print('Model: {}, Validation Accuracy: {}%'.format(model.name, accuracy / len(testIterator) * 100))
  \<close>
\<close>

definition eval_model :: "'g backend \<Rightarrow> batch list \<Rightarrow> MyRNN \<Rightarrow> 'g \<Rightarrow> error + real \<times> 'g" where
  "eval_model be testIterator m g =
     bindE (eval_batches be m testIterator (0, g)) (\<lambda>(accuracy, g1).
     if length testIterator = 0 then Inl ZeroDivisionError
     else Inr (accuracy / real (length testIterator) * 100, g1))"

text \<open>
  The same loop with the model it evaluates carried in the state, as the training
  loop carries the model it trains: the body receives the state of the model, of the
  generator and of the accumulated accuracy and returns the state after its five
  statements. A call of the module in evaluation mode, \<^verbatim>\<open>criterion\<close> and
  \<^verbatim>\<open>batchAccuracy\<close> return values; none of them assigns to the model.
\<close>

record 'g eval_state =
  evaluated :: MyRNN
  eval_gen :: 'g
  accuracy :: real

definition eval_batch :: "'g backend \<Rightarrow> batch \<Rightarrow> 'g eval_state \<Rightarrow> error + 'g eval_state" where
  "eval_batch be b s =
     bindE (forward be (evaluated s) (seqs b) (seq_lens b) (eval_gen s)) (\<lambda>(out, g1).
     bindE (squeeze1 out) (\<lambda>predictions.
     bindE (criterion predictions (labels b)) (\<lambda>loss.
     bindE (batchAccuracy (entries predictions) (labels b)) (\<lambda>acc.
     Inr (s\<lparr>eval_gen := g1, accuracy := accuracy s + acc\<rparr>)))))"

fun eval_steps :: "'g backend \<Rightarrow> batch list \<Rightarrow> 'g eval_state \<Rightarrow> error + 'g eval_state" where
  "eval_steps be [] s = Inr s"
| "eval_steps be (b # bs) s = bindE (eval_batch be b s) (eval_steps be bs)"

text \<open>
  The body of the loop over the models on that state: the model after its evaluation,
  the printed percentage and the generator.
\<close>

definition eval_one :: "'g backend \<Rightarrow> batch list \<Rightarrow> MyRNN \<Rightarrow> 'g \<Rightarrow> error + MyRNN \<times> real \<times> 'g" where
  "eval_one be testIterator m g =
     bindE (eval_steps be testIterator \<lparr>evaluated = m, eval_gen = g, accuracy = 0\<rparr>) (\<lambda>s.
     if length testIterator = 0 then Inl ZeroDivisionError
     else Inr (evaluated s, accuracy s / real (length testIterator) * 100, eval_gen s))"

fun eval_loop :: "'g backend \<Rightarrow> batch list \<Rightarrow> MyRNN option list \<Rightarrow> 'g
    \<Rightarrow> error + MyRNN option list \<times> real option list \<times> 'g" where
  "eval_loop be testIterator [] g = Inr ([], [], g)"
| "eval_loop be testIterator (None # models) g =
     bindE (eval_loop be testIterator models g) (\<lambda>(ms, ps, g1). Inr (None # ms, None # ps, g1))"
| "eval_loop be testIterator (Some m # models) g =
     bindE (eval_one be testIterator m g) (\<lambda>(m1, pct, g1).
     bindE (eval_loop be testIterator models g1) (\<lambda>(ms, ps, g2).
     Inr (Some m1 # ms, Some pct # ps, g2)))"

text \<open>
  The evaluation cell: every model is put in evaluation mode, then each one is
  evaluated without gradient tracking. The result is the state of the models after the
  second loop, the printed percentages and the random generator.
  \<^verbatim>\<open>
  for model in models:
      if model is not None:
          model.eval()
  with torch.no_grad():
      for model in models:
          if model is None:
              continue
          ...
  \<close>
\<close>

definition evaluate_all :: "'g backend \<Rightarrow> batch list \<Rightarrow> MyRNN option list \<Rightarrow> 'g
    \<Rightarrow> error + MyRNN option list \<times> real option list \<times> 'g" where
  "evaluate_all be testIterator models g =
     eval_loop be testIterator (map (map_option model_eval) models) g"

section \<open>Well-formed batches and concrete inputs\<close>

text \<open>
  The architecture of a model: everything the constructor fixes, as opposed to the
  parameters, the gradients and the mode, which change during the run.
\<close>

definition architecture :: "MyRNN \<Rightarrow> bool \<times> bool \<times> Embedding \<times> Recurrent \<times> Linear \<times> real" where
  "architecture m = (LSTM m, bidir m, embed m, rnn m, dense m, dropout m)"

text \<open>
  A batch of \<open>B\<close> examples as the iterators supply it: a non-empty rectangular tensor
  of tokens of the vocabulary, one row per time step, and one true length per example,
  each between one and the padded length, in decreasing order.
\<close>

definition batch_input :: "nat list list \<Rightarrow> nat list \<Rightarrow> nat \<Rightarrow> bool" where
  "batch_input text textLengths B =
     (text \<noteq> [] \<and> 0 < B
      \<and> list_all (\<lambda>row. length row = B \<and> list_all (\<lambda>tok. tok < vocabSize) row) text
      \<and> length textLengths = B
      \<and> sorted (rev textLengths)
      \<and> list_all (\<lambda>l. 0 < l \<and> l \<le> length text) textLengths)"

text \<open>A batch whose inputs are well formed and that has one label per example.\<close>

definition well_formed_batch :: "batch \<Rightarrow> bool" where
  "well_formed_batch b = batch_input (seqs b) (seq_lens b) (length (labels b))"

text \<open>
  The padding row is frozen at entry \<open>j\<close> in a state of the training loop: the entry
  and its running average in the optimizer are zero, and the embedding still has the
  padding index \<open>pad\<close>.
\<close>

definition pad_frozen :: "nat \<Rightarrow> 'g train_state \<Rightarrow> bool" where
  "pad_frozen j s =
     (weights (model s) (EmbedW pad j) = 0 \<and> exp_avg (optimizer s) (EmbedW pad j) = 0
      \<and> padding_idx (embed (model s)) = Some pad)"

text \<open>
  The notebook from the construction of one model to its first optimizer step:
  construction, loading of the pretrained vectors, training mode, a fresh optimizer
  and generator, and the first batch of the first epoch.
\<close>

definition first_step :: "'g backend \<Rightarrow> (param \<Rightarrow> real) \<Rightarrow> string \<Rightarrow> matrix \<Rightarrow> batch
    \<Rightarrow> error + 'g train_state" where
  "first_step be init tag reviewVocabVectors b =
     bindE (MyRNN_init init tag) (\<lambda>m0.
     bindE (load_pretrained reviewVocabVectors m0) (\<lambda>m1.
     train_batch be b
       \<lparr>model = model_train m1, optimizer = Adam, gen = manual_seed be 0, epochLoss = 0\<rparr>))"

text \<open>
  Concrete inputs on which the theorems below are evaluated. The first is the
  numerical library on parameters that are all zero, when dropout keeps every entry:
  the hidden states of the recurrent layers are then zero, and so is every gradient of
  a batch with as many positive as negative labels. With it come initial parameters
  that are all zero, a pretrained matrix of ones, and a batch of two examples of
  lengths two and one, one positive and one negative, that contains the unknown token
  and the padding token.
\<close>

definition const_backend :: "nat backend" where
  "const_backend =
     \<lparr>manual_seed = (\<lambda>n. n),
      bernoulli = (\<lambda>g q s. ((\<lambda>i. True), Suc g)),
      recurrent = (\<lambda>r w x. ((\<lambda>i. 0), (\<lambda>i. 0), (\<lambda>i. 0))),
      grad_embedded = (\<lambda>g m x y i. 0),
      grad_params = (\<lambda>g m x y k. 0)\<rparr>"

definition zero_init :: "param \<Rightarrow> real" where
  "zero_init = (\<lambda>k. 0)"

definition ones_matrix :: matrix where
  "ones_matrix = \<lparr>nrows = vocabSize, ncols = embeddingSize, entry = (\<lambda>i j. 1)\<rparr>"

definition tiny_batch :: batch where
  "tiny_batch = \<lparr>seqs = [[5, 0], [7, 1]], seq_lens = [2, 1], labels = [1, 0]\<rparr>"

section \<open>The library on the variant RNN\<close>

text \<open>
  The recurrent layer \<^verbatim>\<open>nn.RNN\<close> and back-propagation through the variant RNN,
  written out for a run in which dropout keeps every entry. The parameters of the
  layer are, in the library's order, the input weights (hidden by input), the hidden
  weights (hidden by hidden) and the two bias vectors.
\<close>

definition rnn_w_ih :: "Recurrent \<Rightarrow> (param \<Rightarrow> real) \<Rightarrow> nat \<Rightarrow> nat \<Rightarrow> real" where
  "rnn_w_ih r w k j = w (RnnP (k * input_size r + j))"

definition rnn_w_hh :: "Recurrent \<Rightarrow> (param \<Rightarrow> real) \<Rightarrow> nat \<Rightarrow> nat \<Rightarrow> real" where
  "rnn_w_hh r w k i = w (RnnP (hidden_size r * input_size r + k * hidden_size r + i))"

definition rnn_b_ih :: "Recurrent \<Rightarrow> (param \<Rightarrow> real) \<Rightarrow> nat \<Rightarrow> real" where
  "rnn_b_ih r w k = w (RnnP (hidden_size r * input_size r + hidden_size r * hidden_size r + k))"

definition rnn_b_hh :: "Recurrent \<Rightarrow> (param \<Rightarrow> real) \<Rightarrow> nat \<Rightarrow> real" where
  "rnn_b_hh r w k =
     w (RnnP (hidden_size r * input_size r + hidden_size r * hidden_size r + hidden_size r + k))"

text \<open>
  \<open>rnn_state r w x b t k\<close> is unit \<open>k\<close> of the hidden state of example \<open>b\<close> after \<open>t\<close>
  steps over the input \<open>x\<close>: it starts at zero, and a step is
  \<open>h' = tanh (W\<^sub>i\<^sub>h x\<^sub>t + b\<^sub>i\<^sub>h + W\<^sub>h\<^sub>h h + b\<^sub>h\<^sub>h)\<close>.
\<close>

primrec rnn_state :: "Recurrent \<Rightarrow> (param \<Rightarrow> real) \<Rightarrow> (nat list \<Rightarrow> real) \<Rightarrow> nat \<Rightarrow> nat
    \<Rightarrow> nat \<Rightarrow> real" where
  "rnn_state r w x b 0 = (\<lambda>k. 0)"
| "rnn_state r w x b (Suc t) =
     (\<lambda>k. tanh ((\<Sum>j < input_size r. rnn_w_ih r w k j * x [t, b, j]) + rnn_b_ih r w k
               + (\<Sum>i < hidden_size r. rnn_w_hh r w k i * rnn_state r w x b t i) + rnn_b_hh r w k))"

text \<open>
  What \<^verbatim>\<open>nn.RNN\<close> returns on a packed input: the hidden state after every step
  within the length of an example, and the hidden state after its last step.
\<close>

definition rnn_recurrent :: "Recurrent \<Rightarrow> (param \<Rightarrow> real) \<Rightarrow> packed
    \<Rightarrow> (nat list \<Rightarrow> real) \<times> (nat list \<Rightarrow> real) \<times> (nat list \<Rightarrow> real)" where
  "rnn_recurrent r w pk =
     ((\<lambda>idx. case idx of
                [t, b, k] \<Rightarrow>
                  if t < lengths pk ! b then rnn_state r w (val (padded pk)) b (Suc t) k else 0
              | _ \<Rightarrow> 0),
      (\<lambda>idx. case idx of
                [d, b, k] \<Rightarrow> rnn_state r w (val (padded pk)) b (lengths pk ! b) k
              | _ \<Rightarrow> 0),
      (\<lambda>idx. 0))"

text \<open>
  The forward pass of the variant RNN in training mode when dropout keeps every entry:
  the embedded tokens scaled by \<open>1 / (1 - dropout)\<close>, the hidden states over them, and
  the logit of example \<open>b\<close>, the linear layer on its scaled final hidden state.
\<close>

definition kept_embedding :: "MyRNN \<Rightarrow> nat list list \<Rightarrow> nat list \<Rightarrow> real" where
  "kept_embedding m text =
     (\<lambda>idx. case idx of
               [t, b, j] \<Rightarrow> weights m (EmbedW (text ! t ! b) j) / (1 - dropout m)
             | _ \<Rightarrow> 0)"

definition hidden_at :: "MyRNN \<Rightarrow> nat list list \<Rightarrow> nat \<Rightarrow> nat \<Rightarrow> nat \<Rightarrow> real" where
  "hidden_at m text b t k = rnn_state (rnn m) (weights m) (kept_embedding m text) b t k"

definition logit :: "MyRNN \<Rightarrow> nat list list \<Rightarrow> nat list \<Rightarrow> nat \<Rightarrow> real" where
  "logit m text lens b =
     (\<Sum>k < in_features (dense m).
        weights m (DenseP k) * (hidden_at m text b (lens ! b) k / (1 - dropout m)))
     + weights m (DenseP (in_features (dense m)))"

text \<open>
  Back-propagation of the mean binary cross entropy. \<open>sigmoid x - y\<close> is the
  derivative of the loss of one example in its logit; \<open>dhidden \<dots> b n k\<close> is the
  derivative of the loss in unit \<open>k\<close> of the hidden state of example \<open>b\<close>, \<open>n\<close> steps
  before its last, and \<open>dpre \<dots> b t k\<close> the derivative in the argument of the
  \<open>tanh\<close> of step \<open>t\<close>.
\<close>

definition sigmoid :: "real \<Rightarrow> real" where
  "sigmoid x = 1 / (1 + exp (- x))"

definition dlogit :: "MyRNN \<Rightarrow> nat list list \<Rightarrow> nat list \<Rightarrow> real list \<Rightarrow> nat \<Rightarrow> real" where
  "dlogit m text lens ys b = (sigmoid (logit m text lens b) - ys ! b) / real (length ys)"

primrec dhidden :: "MyRNN \<Rightarrow> nat list list \<Rightarrow> nat list \<Rightarrow> real list \<Rightarrow> nat \<Rightarrow> nat \<Rightarrow> nat
    \<Rightarrow> real" where
  "dhidden m text lens ys b 0 =
     (\<lambda>k. dlogit m text lens ys b * weights m (DenseP k) / (1 - dropout m))"
| "dhidden m text lens ys b (Suc n) =
     (\<lambda>i. \<Sum>k < hidden_size (rnn m).
             dhidden m text lens ys b n k * (1 - (hidden_at m text b (lens ! b - n) k)\<^sup>2)
             * rnn_w_hh (rnn m) (weights m) k i)"

definition dpre :: "MyRNN \<Rightarrow> nat list list \<Rightarrow> nat list \<Rightarrow> real list \<Rightarrow> nat \<Rightarrow> nat \<Rightarrow> nat
    \<Rightarrow> real" where
  "dpre m text lens ys b t k =
     dhidden m text lens ys b (lens ! b - Suc t) k * (1 - (hidden_at m text b (Suc t) k)\<^sup>2)"

definition rnn_grad_embedded :: "MyRNN \<Rightarrow> nat list list \<times> nat list \<Rightarrow> real list
    \<Rightarrow> nat list \<Rightarrow> real" where
  "rnn_grad_embedded m x ys =
     (\<lambda>idx. case idx of
               [t, b, j] \<Rightarrow>
                 if t < snd x ! b
                 then (\<Sum>k < hidden_size (rnn m).
                         dpre m (fst x) (snd x) ys b t k * rnn_w_ih (rnn m) (weights m) k j)
                      / (1 - dropout m)
                 else 0
             | _ \<Rightarrow> 0)"

definition rnn_grad_params :: "MyRNN \<Rightarrow> nat list list \<times> nat list \<Rightarrow> real list
    \<Rightarrow> param \<Rightarrow> real" where
  "rnn_grad_params m x ys p =
     (let text = fst x; lens = snd x; E = input_size (rnn m); H = hidden_size (rnn m);
          n = in_features (dense m);
          steps = (\<lambda>f. \<Sum>b < length ys. \<Sum>t < lens ! b. f b t)
      in case p of
           EmbedW i j \<Rightarrow> 0
         | DenseP k \<Rightarrow>
             if k < n
             then \<Sum>b < length ys.
                    dlogit m text lens ys b * (hidden_at m text b (lens ! b) k / (1 - dropout m))
             else if k = n then \<Sum>b < length ys. dlogit m text lens ys b
             else 0
         | RnnP q \<Rightarrow>
             if q < H * E
             then steps (\<lambda>b t. dpre m text lens ys b t (q div E)
                                * kept_embedding m text [t, b, q mod E])
             else if q < H * E + H * H
             then steps (\<lambda>b t. dpre m text lens ys b t ((q - H * E) div H)
                                * hidden_at m text b t ((q - H * E) mod H))
             else if q < H * E + H * H + H + H
             then steps (\<lambda>b t. dpre m text lens ys b t ((q - (H * E + H * H)) mod H))
             else 0)"

text \<open>
  The library on the variant RNN when dropout keeps every entry, and inputs for it:
  initial parameters that are all one quarter, within the ranges of the library's
  initialisers of the recurrent and of the linear layer, and a batch of one negative
  example that consists of the unknown token.
\<close>

definition rnn_backend :: "nat backend" where
  "rnn_backend =
     \<lparr>manual_seed = (\<lambda>n. n),
      bernoulli = (\<lambda>g q s. ((\<lambda>i. True), Suc g)),
      recurrent = rnn_recurrent,
      grad_embedded = (\<lambda>g. rnn_grad_embedded),
      grad_params = (\<lambda>g. rnn_grad_params)\<rparr>"

definition quarter_init :: "param \<Rightarrow> real" where
  "quarter_init = (\<lambda>k. 1 / 4)"

definition unk_batch :: batch where
  "unk_batch = \<lparr>seqs = [[0]], seq_lens = [1], labels = [0]\<rparr>"

section \<open>Properties of batchAccuracy\<close>

lemma tensor_eq_same_length:
  "length bs = length ts \<Longrightarrow>
   tensor_eq bs ts = Inr (map (\<lambda>(b, t). (if b then 1 else 0) = t) (zip bs ts))"
  by (simp add: tensor_eq_def broadcast_def)

lemma tensor_sum_le: "tensor_sum flags \<le> length flags"
  by (simp add: tensor_sum_def)

lemma batchAccuracy_same_length:
  "length preds = length targets \<Longrightarrow> preds \<noteq> [] \<Longrightarrow>
   batchAccuracy preds targets =
     Inr (real (tensor_sum (map (\<lambda>(b, t). (if b then 1 else 0) = t) (zip (ge_zero preds) targets)))
          / real (length preds))"
  by (auto simp add: batchAccuracy_def tensor_eq_same_length ge_zero_def)

lemma correct_count:
  "length preds = length targets \<Longrightarrow>
   tensor_sum (map (\<lambda>(b, t). (if b then 1 else 0) = t) (zip (ge_zero preds) targets))
     = length (filter (\<lambda>(x, t). (0 \<le> x \<and> t = 1) \<or> (x < 0 \<and> t = 0)) (zip preds targets))"
  by (induction preds targets rule: list_induct2) (auto simp add: tensor_sum_def ge_zero_def)

lemma batchAccuracy_count:
  assumes "length preds = length targets" and "preds \<noteq> []"
  shows "batchAccuracy preds targets =
           Inr (real (length (filter (\<lambda>(x, t). (0 \<le> x \<and> t = 1) \<or> (x < 0 \<and> t = 0))
                                (zip preds targets)))
                / real (length preds))"
  using batchAccuracy_same_length [OF assms] correct_count [OF assms(1)] by simp


text \<open>
  Claim C10. A logit exactly equal to zero is a positive prediction, since the threshold
  comparison is \<open>\<ge>\<close>. For every batch with one label per example and every example
  \<open>i\<close> of it whose logit is 0: the example is rounded to \<open>True\<close>, it counts as correct
  when its label is 1 and as wrong when its label is 0; the accuracy of the batch is the
  number of examples with a logit \<open>\<ge> 0\<close> and label 1 or a negative logit and label 0,
  divided by the size of the batch; and the accuracy with label 1 at example \<open>i\<close> is
  that with label 0 there plus one share \<open>1 / n\<close> of the batch. A one-example batch
  with logit 0 has accuracy 1 against label 1 and 0 against label 0.
\<close>

theorem batchAccuracy_zero_logit_is_positive:
  assumes "length preds = length targets" and "i < length preds" and "preds ! i = 0"
  shows "ge_zero preds ! i
       \<and> (\<exists>flags. tensor_eq (ge_zero preds) targets = Inr flags
             \<and> length flags = length preds
             \<and> (targets ! i = 1 \<longrightarrow> flags ! i)
             \<and> (targets ! i = 0 \<longrightarrow> \<not> flags ! i))
       \<and> batchAccuracy [0] [1] = Inr 1
       \<and> batchAccuracy [0] [0] = Inr 0
       \<and> batchAccuracy preds targets =
           Inr (real (length (filter (\<lambda>(x, t). (0 \<le> x \<and> t = 1) \<or> (x < 0 \<and> t = 0))
                                (zip preds targets)))
                / real (length preds))
       \<and> (\<exists>a. batchAccuracy preds (targets[i := 0]) = Inr a
              \<and> batchAccuracy preds (targets[i := 1]) = Inr (a + 1 / real (length preds)))"
proof -
  have len: "length (ge_zero preds) = length targets"
    using assms(1) by (simp add: ge_zero_def)
  have rounded: "ge_zero preds ! i"
    using assms(2,3) by (simp add: ge_zero_def)
  let ?flags = "map (\<lambda>(b, t). (if b then 1 else 0) = t) (zip (ge_zero preds) targets)"
  have eq: "tensor_eq (ge_zero preds) targets = Inr ?flags"
    by (rule tensor_eq_same_length [OF len])
  have at_i: "?flags ! i = (targets ! i = 1)"
    using assms(1,2) rounded len by simp
  have one: "batchAccuracy [0] [1] = Inr 1"
    by (simp add: batchAccuracy_def tensor_eq_def broadcast_def ge_zero_def tensor_sum_def)
  have zero: "batchAccuracy [0] [0] = Inr 0"
    by (simp add: batchAccuracy_def tensor_eq_def broadcast_def ge_zero_def tensor_sum_def)
  have ne: "preds \<noteq> []" using assms(2) by auto
  note count = batchAccuracy_count [OF assms(1) ne]
  let ?P = "\<lambda>(x::real, t::real). (0 \<le> x \<and> t = 1) \<or> (x < 0 \<and> t = 0)"
  obtain xs ys where p: "preds = xs @ 0 # ys" and lx: "length xs = i"
    using id_take_nth_drop [OF assms(2)] assms(2,3) by (metis length_take min.absorb2 less_imp_le)
  have it: "i < length targets" using assms(1,2) by simp
  obtain ts us t0 where t: "targets = ts @ t0 # us" and lt: "length ts = i"
    using id_take_nth_drop [OF it] it by (metis length_take min.absorb2 less_imp_le)
  have upd: "targets[i := v] = ts @ v # us" for v
    unfolding t lt [symmetric] by simp
  have z: "zip preds (targets[i := v]) = zip xs ts @ (0, v) # zip ys us" for v
    using lx lt by (simp add: p upd)
  have c0: "length (filter ?P (zip preds (targets[i := 0])))
              = length (filter ?P (zip xs ts)) + length (filter ?P (zip ys us))"
    by (simp add: z)
  have c1: "length (filter ?P (zip preds (targets[i := 1])))
              = length (filter ?P (zip xs ts)) + length (filter ?P (zip ys us)) + 1"
    by (simp add: z)
  have l0: "length preds = length (targets[i := 0])" and l1: "length preds = length (targets[i := 1])"
    using assms(1) by simp_all
  have b0: "batchAccuracy preds (targets[i := 0]) =
              Inr (real (length (filter ?P (zip xs ts)) + length (filter ?P (zip ys us)))
                   / real (length preds))"
    using batchAccuracy_count [OF l0 ne] c0 by simp
  have b1: "batchAccuracy preds (targets[i := 1]) =
              Inr (real (length (filter ?P (zip xs ts)) + length (filter ?P (zip ys us)))
                   / real (length preds) + 1 / real (length preds))"
    using batchAccuracy_count [OF l1 ne] c1 by (simp add: add_divide_distrib)
  from b0 b1 have upd_acc: "\<exists>a. batchAccuracy preds (targets[i := 0]) = Inr a
              \<and> batchAccuracy preds (targets[i := 1]) = Inr (a + 1 / real (length preds))"
    by blast
  have first: "ge_zero preds ! i
       \<and> (\<exists>flags. tensor_eq (ge_zero preds) targets = Inr flags
             \<and> length flags = length preds
             \<and> (targets ! i = 1 \<longrightarrow> flags ! i)
             \<and> (targets ! i = 0 \<longrightarrow> \<not> flags ! i))"
    using rounded eq at_i len assms(1) by simp
  from first one zero count upd_acc show ?thesis by blast
qed

theorem batchAccuracy_zero_logit_is_positive_witness:
  "length [-1, 0 :: real] = length [1, 0 :: real] \<and> (1::nat) < length [-1, 0 :: real]
   \<and> [-1, 0 :: real] ! 1 = 0
   \<and> ge_zero [-1, 0] ! 1
   \<and> batchAccuracy [-1, 0] [1, 0] = Inr 0
   \<and> batchAccuracy [-1, 0] ([1, 0][1 := 0]) = Inr 0
   \<and> batchAccuracy [-1, 0] ([1, 0][1 := 1]) = Inr (1 / 2)"
proof -
  have h: "length [-1, 0 :: real] = length [1, 0 :: real]" "(1::nat) < length [-1, 0 :: real]"
    "[-1, 0 :: real] ! 1 = 0" by simp_all
  note r = batchAccuracy_zero_logit_is_positive [OF h]
  from r have "ge_zero [-1, 0] ! 1" by (elim conjE)
  moreover from r have "\<exists>a. batchAccuracy [-1, 0 :: real] ([1, 0 :: real][1 := 0]) = Inr a
              \<and> batchAccuracy [-1, 0 :: real] ([1, 0 :: real][1 := 1])
                  = Inr (a + 1 / real (length [-1, 0 :: real]))"
    by (elim conjE)
  moreover have "batchAccuracy [-1, 0] ([1, 0][1 := 0]) = Inr 0"
    by (simp add: batchAccuracy_def tensor_eq_def broadcast_def ge_zero_def tensor_sum_def)
  moreover have "batchAccuracy [-1, 0] [1, 0] = Inr 0"
    by (simp add: batchAccuracy_def tensor_eq_def broadcast_def ge_zero_def tensor_sum_def)
  ultimately show ?thesis using h by simp
qed


section \<open>Construction and the forward pass\<close>

lemma MyRNN_init_eq:
  "MyRNN_init init tag =
     Inr \<lparr>name = tag, LSTM = (tag = ''LSTM'' \<or> tag = ''BiLSTM''), bidir = (tag = ''BiLSTM''),
          embed = \<lparr>num_embeddings = vocabSize, embedding_dim = embeddingSize, padding_idx = Some pad\<rparr>,
          rnn = \<lparr>kind = (if tag = ''RNN'' then nn_RNN else if tag = ''GRU'' then nn_GRU else nn_LSTM),
                 input_size = embeddingSize, hidden_size = hiddenSize,
                 bidirectional = (tag = ''BiLSTM'')\<rparr>,
          dense = \<lparr>in_features = hiddenSize * (if tag = ''BiLSTM'' then 2 else 1), out_features = 1\<rparr>,
          dropout = dropoutRate, weights = init, grads = (\<lambda>k. 0), training = True\<rparr>"
  by (simp add: MyRNN_init_def nn_Embedding_def nn_Recurrent_def nn_Linear_def bindE_def
      vocabSize_def pad_def Let_def)

lemma architecture_init:
  assumes "MyRNN_init init tag = Inr m0" and "architecture m = architecture m0"
  shows "LSTM m = (tag = ''LSTM'' \<or> tag = ''BiLSTM'')"
    and "bidir m = (tag = ''BiLSTM'')"
    and "embed m = \<lparr>num_embeddings = vocabSize, embedding_dim = embeddingSize, padding_idx = Some pad\<rparr>"
    and "rnn m = \<lparr>kind = (if tag = ''RNN'' then nn_RNN else if tag = ''GRU'' then nn_GRU else nn_LSTM),
                 input_size = embeddingSize, hidden_size = hiddenSize,
                 bidirectional = (tag = ''BiLSTM'')\<rparr>"
    and "dense m = \<lparr>in_features = hiddenSize * (if tag = ''BiLSTM'' then 2 else 1), out_features = 1\<rparr>"
    and "dropout m = dropoutRate"
  using assms by (auto simp add: MyRNN_init_eq architecture_def)

lemma embedding_fwd_ok:
  assumes "batch_input tokens lens B" and "num_embeddings e = vocabSize"
  shows "embedding_fwd e w tokens =
           Inr \<lparr>shape = [length tokens, B, embedding_dim e],
                val = (\<lambda>idx. case idx of [t, b, j] \<Rightarrow> w (EmbedW (tokens ! t ! b) j) | _ \<Rightarrow> 0)\<rparr>"
proof -
  from assms(1) obtain row rest where tx: "tokens = row # rest" and row: "length row = B"
    by (cases tokens) (auto simp add: batch_input_def)
  have toks: "list_all (list_all (\<lambda>tok. tok < num_embeddings e)) tokens"
    using assms by (auto simp add: batch_input_def list_all_iff)
  show ?thesis
    using toks unfolding tx by (simp add: embedding_fwd_def text_shape_def row)
qed

lemma dropout_fwd_shape:
  "\<exists>t' g'. dropout_fwd be m (Tensor t) g = Inr (Tensor t', g') \<and> shape t' = shape t
      \<and> (\<not> training m \<longrightarrow> t' = t \<and> g' = g)"
  by (simp add: dropout_fwd_def Let_def split: prod.splits)

lemma pack_padded_sequence_ok:
  assumes "batch_input tokens lens B" and "shape t = [length tokens, B, E]" and "0 < E"
  shows "pack_padded_sequence (Tensor t) lens = Inr \<lparr>padded = t, lengths = lens\<rparr>"
proof -
  from assms(1) have L: "0 < length tokens" and B: "0 < B" and len: "length lens = B"
    and srt: "sorted (rev lens)" and pos: "\<forall>l\<in>set lens. 0 < l"
    by (auto simp add: batch_input_def list_all_iff)
  from len B have "lens \<noteq> []" by auto
  then have "last lens \<in> set lens" by simp
  with pos have "last lens \<noteq> 0" by auto
  then show ?thesis
    using L B len srt assms(2,3) by (simp add: pack_padded_sequence_def)
qed


lemma run_rnn_ok:
  assumes "MyRNN_init init tag = Inr m0" and "architecture m = architecture m0"
    and "tag \<in> {''RNN'', ''GRU'', ''LSTM'', ''BiLSTM''}"
    and "shape (padded pk) = [L, B, embeddingSize]"
    and "list_all (\<lambda>l. l \<le> L) (lengths pk)"
    and "recurrent be (rnn m) (weights m) pk = (out, hn, cn)"
  shows "run_rnn be m pk =
           Inr (\<lparr>padded = \<lparr>shape = [L, B, (if tag = ''BiLSTM'' then 2 else 1) * hiddenSize], val = out\<rparr>,
                 lengths = lengths pk\<rparr>,
                Tensor \<lparr>shape = [if tag = ''BiLSTM'' then 2 else 1, B, hiddenSize], val = hn\<rparr>)"
proof -
  note a = architecture_init [OF assms(1,2)]
  have r: "rnn_fwd be (rnn m) (weights m) pk =
             Inr (\<lparr>padded = \<lparr>shape = [L, B, (if tag = ''BiLSTM'' then 2 else 1) * hiddenSize], val = out\<rparr>,
                   lengths = lengths pk\<rparr>,
                  (case kind (rnn m) of
                     nn_LSTM \<Rightarrow> Tuple (Tensor \<lparr>shape = [if tag = ''BiLSTM'' then 2 else 1, B, hiddenSize], val = hn\<rparr>)
                                      (Tensor \<lparr>shape = [if tag = ''BiLSTM'' then 2 else 1, B, hiddenSize], val = cn\<rparr>)
                   | _ \<Rightarrow> Tensor \<lparr>shape = [if tag = ''BiLSTM'' then 2 else 1, B, hiddenSize], val = hn\<rparr>))"
    unfolding rnn_fwd_def assms(4) assms(6) using assms(5) by (simp add: a(4))
  from assms(3) consider "tag = ''RNN''" | "tag = ''GRU''" | "tag = ''LSTM''" | "tag = ''BiLSTM''"
    by auto
  then show ?thesis
  proof cases
    case 1
    then show ?thesis unfolding run_rnn_def r by (simp add: a)
  next
    case 2
    then show ?thesis unfolding run_rnn_def r by (simp add: a)
  next
    case 3
    then show ?thesis unfolding run_rnn_def r by (simp add: a bindE_def unpack2_def)
  next
    case 4
    then show ?thesis unfolding run_rnn_def r by (simp add: a bindE_def unpack2_def)
  qed
qed


lemma select_hidden_ok:
  assumes "MyRNN_init init tag = Inr m0" and "architecture m = architecture m0"
  shows "select_hidden m (Tensor \<lparr>shape = [if tag = ''BiLSTM'' then 2 else 1, B, hiddenSize], val = hn\<rparr>) =
           Inr (Tensor (if tag = ''BiLSTM''
                        then \<lparr>shape = [B, hiddenSize + hiddenSize],
                              val = (\<lambda>idx. case idx of
                                         i # j # is \<Rightarrow>
                                           if j < hiddenSize then hn (0 # i # j # is)
                                           else hn (1 # i # (j - hiddenSize) # is)
                                       | _ \<Rightarrow> 0)\<rparr>
                        else \<lparr>shape = [B, hiddenSize], val = (\<lambda>idx. hn (0 # idx))\<rparr>))"
  using architecture_init(2) [OF assms]
  by (simp add: select_hidden_def index_from_end_def index0_def torch_cat1_def select0_def bindE_def
      fun_eq_iff split: list.split)

lemma linear_fwd_shape:
  assumes "shape t = [B, n]" and "in_features l = n" and "out_features l = 1"
  shows "\<exists>out. linear_fwd l w (Tensor t) = Inr (Tensor out) \<and> shape out = [B, 1]"
  using assms by (simp add: linear_fwd_def)

lemma forward_ok:
  assumes init: "MyRNN_init init tag = Inr m0" and arch: "architecture m = architecture m0"
    and tag: "tag \<in> {''RNN'', ''GRU'', ''LSTM'', ''BiLSTM''}"
    and inp: "batch_input tokens lens B"
  shows "\<exists>out g'. forward be m tokens lens g = Inr (Tensor out, g') \<and> shape out = [B, 1]
           \<and> (\<not> training m \<longrightarrow> g' = g)"
proof -
  note a = architecture_init [OF init arch]
  let ?e = "\<lparr>shape = [length tokens, B, embeddingSize],
             val = (\<lambda>idx. case idx of [t, b, j] \<Rightarrow> weights m (EmbedW (tokens ! t ! b) j) | _ \<Rightarrow> 0)\<rparr>"
  have e: "embedding_fwd (embed m) (weights m) tokens = Inr ?e"
    using embedding_fwd_ok [OF inp, of "embed m" "weights m"] by (simp add: a(3))
  obtain emb g1 where d1: "dropout_fwd be m (Tensor ?e) g = Inr (Tensor emb, g1)"
    and emb: "shape emb = [length tokens, B, embeddingSize]" and g1: "\<not> training m \<longrightarrow> g1 = g"
    using dropout_fwd_shape [of be m ?e g] by auto
  have pk: "pack_padded_sequence (Tensor emb) lens = Inr \<lparr>padded = emb, lengths = lens\<rparr>"
    by (rule pack_padded_sequence_ok [OF inp emb]) (simp add: embeddingSize_def)
  let ?pk = "\<lparr>padded = emb, lengths = lens\<rparr>"
  obtain out hn cn where rec: "recurrent be (rnn m) (weights m) ?pk = (out, hn, cn)"
    by (cases "recurrent be (rnn m) (weights m) ?pk") auto
  have lens: "list_all (\<lambda>l. l \<le> length tokens) (lengths ?pk)"
    using inp by (auto simp add: batch_input_def list_all_iff)
  have run: "run_rnn be m ?pk =
           Inr (\<lparr>padded = \<lparr>shape = [length tokens, B, (if tag = ''BiLSTM'' then 2 else 1) * hiddenSize], val = out\<rparr>,
                 lengths = lengths ?pk\<rparr>,
                Tensor \<lparr>shape = [if tag = ''BiLSTM'' then 2 else 1, B, hiddenSize], val = hn\<rparr>)"
    by (rule run_rnn_ok [OF init arch tag _ lens rec]) (simp add: emb)
  let ?sel = "if tag = ''BiLSTM''
                        then \<lparr>shape = [B, hiddenSize + hiddenSize],
                              val = (\<lambda>idx. case idx of
                                         i # j # is \<Rightarrow>
                                           if j < hiddenSize then hn (0 # i # j # is)
                                           else hn (1 # i # (j - hiddenSize) # is)
                                       | _ \<Rightarrow> 0)\<rparr>
                        else \<lparr>shape = [B, hiddenSize], val = (\<lambda>idx. hn (0 # idx))\<rparr>"
  have sel: "select_hidden m (Tensor \<lparr>shape = [if tag = ''BiLSTM'' then 2 else 1, B, hiddenSize], val = hn\<rparr>)
               = Inr (Tensor ?sel)"
    by (rule select_hidden_ok [OF init arch])
  have sel_shape: "shape ?sel = [B, hiddenSize * (if tag = ''BiLSTM'' then 2 else 1)]"
    by simp
  obtain dr g2 where d2: "dropout_fwd be m (Tensor ?sel) g1 = Inr (Tensor dr, g2)"
    and dr: "shape dr = shape ?sel" and g2: "\<not> training m \<longrightarrow> g2 = g1"
    using dropout_fwd_shape [of be m ?sel g1] by auto
  obtain res where lin: "linear_fwd (dense m) (weights m) (Tensor dr) = Inr (Tensor res)"
    and res: "shape res = [B, 1]"
    using linear_fwd_shape [of dr B "hiddenSize * (if tag = ''BiLSTM'' then 2 else 1)" "dense m" "weights m"]
      dr sel_shape by (auto simp add: a(5))
  have "forward be m tokens lens g = Inr (Tensor res, g2)"
    unfolding forward_def e bindE_def
    by (simp add: d1 pk run sel d2 lin pad_packed_sequence_def del: One_nat_def)
  with res g1 g2 show ?thesis by auto
qed

text \<open>
  Claim C3. Each of the four tags yields the recurrent layer it names: the plain
  recurrence without gates for RNN, the reset/update gated cell for GRU, the
  forget/input/output gated cell for LSTM and BiLSTM; the layer is bidirectional for
  BiLSTM and for no other of the four; the linear layer maps \<open>hiddenSize\<close> inputs to
  one output, and \<open>2 * hiddenSize\<close> inputs for BiLSTM only.
\<close>

theorem MyRNN_init_variants:
  "(\<exists>m. MyRNN_init init ''RNN'' = Inr m \<and> kind (rnn m) = nn_RNN \<and> gates (kind (rnn m)) = []
        \<and> \<not> bidirectional (rnn m) \<and> \<not> bidir m
        \<and> in_features (dense m) = hiddenSize \<and> out_features (dense m) = 1)
 \<and> (\<exists>m. MyRNN_init init ''GRU'' = Inr m \<and> kind (rnn m) = nn_GRU
        \<and> gates (kind (rnn m)) = [ResetGate, UpdateGate]
        \<and> \<not> bidirectional (rnn m) \<and> \<not> bidir m
        \<and> in_features (dense m) = hiddenSize \<and> out_features (dense m) = 1)
 \<and> (\<exists>m. MyRNN_init init ''LSTM'' = Inr m \<and> kind (rnn m) = nn_LSTM
        \<and> gates (kind (rnn m)) = [ForgetGate, InputGate, OutputGate]
        \<and> \<not> bidirectional (rnn m) \<and> \<not> bidir m
        \<and> in_features (dense m) = hiddenSize \<and> out_features (dense m) = 1)
 \<and> (\<exists>m. MyRNN_init init ''BiLSTM'' = Inr m \<and> kind (rnn m) = nn_LSTM
        \<and> gates (kind (rnn m)) = [ForgetGate, InputGate, OutputGate]
        \<and> bidirectional (rnn m) \<and> bidir m
        \<and> in_features (dense m) = 2 * hiddenSize \<and> out_features (dense m) = 1)"
  by (simp add: MyRNN_init_eq)

text \<open>
  Claim C7. For each of the four variants, in either mode and whatever its parameters,
  the forward pass on a batch of \<open>B\<close> examples returns a tensor of shape \<open>(B, 1)\<close>:
  one logit per example.
\<close>

theorem forward_output_shape:
  assumes "tag \<in> {''RNN'', ''GRU'', ''LSTM'', ''BiLSTM''}"
    and "MyRNN_init init tag = Inr m0" and "architecture m = architecture m0"
    and "batch_input tokens lens B"
  shows "\<exists>out g'. forward be m tokens lens g = Inr (Tensor out, g') \<and> shape out = [B, 1]"
  using forward_ok [OF assms(2,3,1,4), of be g] by blast

lemma tiny_batch_input: "batch_input (seqs tiny_batch) (seq_lens tiny_batch) 2"
  by (simp add: batch_input_def tiny_batch_def vocabSize_def)

theorem forward_output_shape_witness:
  "''BiLSTM'' \<in> {''RNN'', ''GRU'', ''LSTM'', ''BiLSTM''}
   \<and> batch_input (seqs tiny_batch) (seq_lens tiny_batch) 2
   \<and> (\<exists>m0. MyRNN_init zero_init ''BiLSTM'' = Inr m0 \<and> architecture (model_eval m0) = architecture m0
        \<and> (\<exists>out g'. forward const_backend (model_eval m0) (seqs tiny_batch) (seq_lens tiny_batch) 0
                       = Inr (Tensor out, g') \<and> shape out = [2, 1]))"
proof -
  obtain m0 where m0: "MyRNN_init zero_init ''BiLSTM'' = Inr m0"
    by (simp add: MyRNN_init_eq)
  have arch: "architecture (model_eval m0) = architecture m0"
    by (simp add: architecture_def model_eval_def)
  have tag: "''BiLSTM'' \<in> {''RNN'', ''GRU'', ''LSTM'', ''BiLSTM''}" by simp
  from forward_output_shape [OF tag m0 arch tiny_batch_input, of const_backend 0] m0 arch tag tiny_batch_input
  show ?thesis by blast
qed

text \<open>
  Claim C8. In the forward pass of each of the four variants the representation
  \<open>sel\<close> that goes through the second dropout into the classifier is selected from
  the final hidden states \<open>hn\<close> of the recurrent layer, whose first axis is the
  direction: for RNN, GRU and LSTM it is \<open>hn[0]\<close>, the final hidden state of the single
  layer; for BiLSTM entry \<open>(b, j)\<close> is \<open>hn[0][b][j]\<close>, the final state of the forward
  direction, for \<open>j < hiddenSize\<close> and \<open>hn[1][b][j - hiddenSize]\<close>, the final state of
  the backward direction, beyond: the concatenation along the feature axis.
\<close>

theorem forward_classifier_input:
  assumes "tag \<in> {''RNN'', ''GRU'', ''LSTM'', ''BiLSTM''}"
    and "MyRNN_init init tag = Inr m0" and "architecture m = architecture m0"
    and "batch_input tokens lens B"
    and "embedding_fwd (embed m) (weights m) tokens = Inr e"
    and "dropout_fwd be m (Tensor e) g = Inr (Tensor embedded, g1)"
    and "recurrent be (rnn m) (weights m) \<lparr>padded = embedded, lengths = lens\<rparr> = (out, hn, cn)"
    and "sel = (if tag = ''BiLSTM''
                then \<lparr>shape = [B, hiddenSize + hiddenSize],
                      val = (\<lambda>idx. case idx of
                                 b # j # is \<Rightarrow>
                                   if j < hiddenSize then hn (0 # b # j # is)
                                   else hn (1 # b # (j - hiddenSize) # is)
                               | _ \<Rightarrow> 0)\<rparr>
                else \<lparr>shape = [B, hiddenSize], val = (\<lambda>idx. hn (0 # idx))\<rparr>)"
  shows "(\<exists>po. run_rnn be m \<lparr>padded = embedded, lengths = lens\<rparr> =
            Inr (po, Tensor \<lparr>shape = [if tag = ''BiLSTM'' then 2 else 1, B, hiddenSize], val = hn\<rparr>))
       \<and> select_hidden m (Tensor \<lparr>shape = [if tag = ''BiLSTM'' then 2 else 1, B, hiddenSize], val = hn\<rparr>)
           = Inr (Tensor sel)
       \<and> forward be m tokens lens g =
           bindE (dropout_fwd be m (Tensor sel) g1) (\<lambda>(dropped, g2).
           bindE (linear_fwd (dense m) (weights m) dropped) (\<lambda>res. Inr (res, g2)))"
proof -
  note a = architecture_init [OF assms(2,3)]
  have e: "shape e = [length tokens, B, embeddingSize]"
    using embedding_fwd_ok [OF assms(4), of "embed m" "weights m"] assms(5) by (auto simp add: a(3))
  have emb: "shape embedded = [length tokens, B, embeddingSize]"
    using dropout_fwd_shape [of be m e g] assms(6) e by auto
  have pk: "pack_padded_sequence (Tensor embedded) lens = Inr \<lparr>padded = embedded, lengths = lens\<rparr>"
    by (rule pack_padded_sequence_ok [OF assms(4) emb]) (simp add: embeddingSize_def)
  let ?pk = "\<lparr>padded = embedded, lengths = lens\<rparr>"
  have lens: "list_all (\<lambda>l. l \<le> length tokens) (lengths ?pk)"
    using assms(4) by (auto simp add: batch_input_def list_all_iff)
  have run: "run_rnn be m ?pk =
           Inr (\<lparr>padded = \<lparr>shape = [length tokens, B, (if tag = ''BiLSTM'' then 2 else 1) * hiddenSize], val = out\<rparr>,
                 lengths = lengths ?pk\<rparr>,
                Tensor \<lparr>shape = [if tag = ''BiLSTM'' then 2 else 1, B, hiddenSize], val = hn\<rparr>)"
    by (rule run_rnn_ok [OF assms(2,3,1) _ lens assms(7)]) (simp add: emb)
  have sel: "select_hidden m (Tensor \<lparr>shape = [if tag = ''BiLSTM'' then 2 else 1, B, hiddenSize], val = hn\<rparr>)
               = Inr (Tensor sel)"
    unfolding assms(8) by (rule select_hidden_ok [OF assms(2,3)])
  have fw: "forward be m tokens lens g =
           bindE (dropout_fwd be m (Tensor sel) g1) (\<lambda>(dropped, g2).
           bindE (linear_fwd (dense m) (weights m) dropped) (\<lambda>res. Inr (res, g2)))"
    unfolding forward_def assms(5)
    by (simp add: bindE_def assms(6) pk run sel pad_packed_sequence_def del: One_nat_def)
  from run sel fw show ?thesis by blast
qed

theorem forward_classifier_input_witness:
  "''BiLSTM'' \<in> {''RNN'', ''GRU'', ''LSTM'', ''BiLSTM''}
   \<and> batch_input (seqs tiny_batch) (seq_lens tiny_batch) 2
   \<and> (\<exists>m0 e sel.
         MyRNN_init zero_init ''BiLSTM'' = Inr m0
       \<and> architecture (model_eval m0) = architecture m0
       \<and> embedding_fwd (embed (model_eval m0)) (weights (model_eval m0)) (seqs tiny_batch) = Inr e
       \<and> dropout_fwd const_backend (model_eval m0) (Tensor e) 0 = Inr (Tensor e, 0)
       \<and> recurrent const_backend (rnn (model_eval m0)) (weights (model_eval m0))
             \<lparr>padded = e, lengths = seq_lens tiny_batch\<rparr> = ((\<lambda>i. 0), (\<lambda>i. 0), (\<lambda>i. 0))
       \<and> shape sel = [2, hiddenSize + hiddenSize]
       \<and> select_hidden (model_eval m0) (Tensor \<lparr>shape = [2, 2, hiddenSize], val = (\<lambda>i. 0)\<rparr>)
           = Inr (Tensor sel)
       \<and> forward const_backend (model_eval m0) (seqs tiny_batch) (seq_lens tiny_batch) 0 =
           bindE (dropout_fwd const_backend (model_eval m0) (Tensor sel) 0) (\<lambda>(dropped, g2).
           bindE (linear_fwd (dense (model_eval m0)) (weights (model_eval m0)) dropped)
             (\<lambda>res. Inr (res, g2))))"
proof -
  obtain m0 where m0: "MyRNN_init zero_init ''BiLSTM'' = Inr m0"
    by (simp add: MyRNN_init_eq)
  let ?m = "model_eval m0"
  have arch: "architecture ?m = architecture m0"
    by (simp add: architecture_def model_eval_def)
  have tag: "''BiLSTM'' \<in> {''RNN'', ''GRU'', ''LSTM'', ''BiLSTM''}" by simp
  note a = architecture_init [OF m0 arch]
  obtain e where e: "embedding_fwd (embed ?m) (weights ?m) (seqs tiny_batch) = Inr e"
    using embedding_fwd_ok [OF tiny_batch_input, of "embed ?m" "weights ?m"] by (simp add: a(3))
  have d: "dropout_fwd const_backend ?m (Tensor e) 0 = Inr (Tensor e, 0)"
    by (simp add: dropout_fwd_def model_eval_def)
  have r: "recurrent const_backend (rnn ?m) (weights ?m) \<lparr>padded = e, lengths = seq_lens tiny_batch\<rparr>
             = ((\<lambda>i. 0), (\<lambda>i. 0), (\<lambda>i. 0))"
    by (simp add: const_backend_def)
  define sel where "sel = (if ''BiLSTM'' = ''BiLSTM''
                then \<lparr>shape = [2, hiddenSize + hiddenSize],
                      val = (\<lambda>idx. case idx of
                                 b # j # is \<Rightarrow>
                                   if j < hiddenSize then (\<lambda>i. 0 :: real) (0 # b # j # is)
                                   else (\<lambda>i. 0) (1 # b # (j - hiddenSize) # is)
                               | _ \<Rightarrow> 0)\<rparr>
                else \<lparr>shape = [2, hiddenSize], val = (\<lambda>idx. (\<lambda>i. 0) (0 # idx))\<rparr>)"
  have s: "shape sel = [2, hiddenSize + hiddenSize]"
    by (simp add: sel_def)
  from forward_classifier_input [OF tag m0 arch tiny_batch_input e d r sel_def]
  have "select_hidden ?m (Tensor \<lparr>shape = [2, 2, hiddenSize], val = (\<lambda>i. 0)\<rparr>) = Inr (Tensor sel)
      \<and> forward const_backend ?m (seqs tiny_batch) (seq_lens tiny_batch) 0 =
           bindE (dropout_fwd const_backend ?m (Tensor sel) 0) (\<lambda>(dropped, g2).
           bindE (linear_fwd (dense ?m) (weights ?m) dropped) (\<lambda>res. Inr (res, g2)))"
    by simp
  with m0 arch tag tiny_batch_input e d r s show ?thesis by blast
qed

lemma ge_zero_rescale:
  assumes "strict_mono f" and "f 0 = (0::real)"
  shows "ge_zero (map f preds) = ge_zero preds"
proof -
  have "(0 \<le> f x) = (0 \<le> x)" for x
    using strict_mono_less_eq [OF assms(1), of 0 x] by (simp add: assms(2))
  then show ?thesis by (simp add: ge_zero_def)
qed

lemma batchAccuracy_strict_mono_invariant:
  assumes "strict_mono f" and "f 0 = 0"
  shows "batchAccuracy (map f preds) targets = batchAccuracy preds targets"
  by (simp add: batchAccuracy_def ge_zero_rescale [OF assms] split: sum.split)

lemma ge_zero_sign_preserving:
  assumes "\<forall>x\<in>set preds. (0 \<le> f x) = (0 \<le> x)"
  shows "ge_zero (map f preds) = ge_zero preds"
  using assms by (simp add: ge_zero_def)

text \<open>
  Claim C6 (amended). The accuracy of a batch is invariant under every transformation
  \<open>f\<close> of its logits that leaves the test \<open>logit \<ge> 0\<close> of each logit of the batch
  as it was; multiplication by a positive factor is such a transformation as long as no
  negative logit becomes zero. This holds for every batch of logits, so in particular for
  the equal logits of a batch of identical sequences.
\<close>

theorem batchAccuracy_sign_preserving_invariant:
  assumes "\<forall>x\<in>set preds. (0 \<le> f x) = (0 \<le> x)"
  shows "batchAccuracy (map f preds) targets = batchAccuracy preds targets"
  by (simp add: batchAccuracy_def ge_zero_sign_preserving [OF assms] split: sum.split)

theorem batchAccuracy_sign_preserving_invariant_witness:
  "list_all (\<lambda>x. (0 \<le> 3 * x) = (0 \<le> x)) (replicate 4 (- (1 / 2) :: real))
   \<and> batchAccuracy (map ((*) 3) (replicate 4 (- (1 / 2)))) [0, 1, 0, 0]
       = batchAccuracy (replicate 4 (- (1 / 2))) [0, 1, 0, 0]
   \<and> batchAccuracy (replicate 4 (- (1 / 2))) [0, 1, 0, 0] = Inr (3 / 4)"
proof -
  have s: "\<forall>x\<in>set (replicate 4 (- (1 / 2) :: real)). (0 \<le> (*) 3 x) = (0 \<le> x)" by simp
  have v: "batchAccuracy (replicate 4 (- (1 / 2))) [0, 1, 0, 0] = Inr (3 / 4)"
    by (simp add: batchAccuracy_def tensor_eq_def broadcast_def ge_zero_def tensor_sum_def
        numeral_eq_Suc)
  from batchAccuracy_sign_preserving_invariant [OF s, of "[0, 1, 0, 0]"] s v show ?thesis by (simp add: list_all_iff)
qed

text \<open>
  Claim C6 (as stated, refuted). The claim says that the accuracy of a batch of identical
  sequences is invariant under any monotonic rescaling of the logits. On four equal
  logits \<open>- 1 / 2\<close> with the labels 0, 1, 0, 0 the accuracy is \<open>3 / 4\<close>; after the
  multiplication by the factor 0, which is monotonic, and after the shift by 1, which is
  strictly monotonic, every logit passes the threshold and the accuracy is \<open>1 / 4\<close>.
\<close>

theorem batchAccuracy_changed_by_monotonic_rescaling:
  "mono ((*) (0::real))
   \<and> batchAccuracy (replicate 4 (- (1 / 2))) [0, 1, 0, 0] = Inr (3 / 4)
   \<and> batchAccuracy (map ((*) 0) (replicate 4 (- (1 / 2)))) [0, 1, 0, 0] = Inr (1 / 4)
   \<and> strict_mono ((+) (1::real))
   \<and> batchAccuracy (map ((+) 1) (replicate 4 (- (1 / 2)))) [0, 1, 0, 0] = Inr (1 / 4)"
  by (simp add: batchAccuracy_def tensor_eq_def broadcast_def ge_zero_def tensor_sum_def
      numeral_eq_Suc mono_def strict_mono_def)

section \<open>The evaluation loop and its accuracy\<close>

lemma batchAccuracy_bounds:
  assumes "batchAccuracy preds targets = Inr a" and "length preds = length targets"
  shows "0 \<le> a \<and> a \<le> 1"
proof -
  let ?flags = "map (\<lambda>(b, t). (if b then 1 else 0) = t) (zip (ge_zero preds) targets)"
  have len: "length (ge_zero preds) = length targets"
    using assms(2) by (simp add: ge_zero_def)
  have ne: "preds \<noteq> []" and a: "a = real (tensor_sum ?flags) / real (length preds)"
    using assms(1) by (auto simp add: batchAccuracy_def tensor_eq_same_length [OF len] split: if_splits)
  have "tensor_sum ?flags \<le> length ?flags" by (rule tensor_sum_le)
  also have "length ?flags = length preds" using len assms(2) by simp
  finally have "real (tensor_sum ?flags) \<le> real (length preds)" by simp
  moreover have "0 < real (length preds)" using ne by simp
  ultimately show ?thesis unfolding a by simp
qed

lemma batchAccuracy_total:
  assumes "length preds = length targets" and "preds \<noteq> []"
  shows "\<exists>a. batchAccuracy preds targets = Inr a"
  using batchAccuracy_same_length [OF assms] by blast

lemma squeeze1_ok:
  assumes "shape out = [B, 1]"
  shows "\<exists>p. squeeze1 (Tensor out) = Inr p \<and> shape p = [B]"
  using assms by (simp add: squeeze1_def)

lemma entries_length: "shape p = [n] \<Longrightarrow> length (entries p) = n"
  by (simp add: entries_def)

lemma criterion_Inr: "criterion p ys = Inr l \<Longrightarrow> shape p = [length ys]"
  by (simp add: criterion_def split: if_splits)

lemma criterion_ok: "shape p = [length ys] \<Longrightarrow> \<exists>l. criterion p ys = Inr l"
  by (simp add: criterion_def)

lemma bindE_Inr: "bindE r f = Inr y \<Longrightarrow> \<exists>x. r = Inr x \<and> f x = Inr y"
  by (cases r) (simp_all add: bindE_def)

lemma eval_batches_bounds:
  "eval_batches be m bs (acc, g) = Inr (acc', g') \<Longrightarrow> acc \<le> acc' \<and> acc' \<le> acc + real (length bs)"
proof (induction bs arbitrary: acc g)
  case Nil
  then show ?case by simp
next
  case (Cons b bs)
  from Cons.prems obtain out g1 p l a
    where fw: "forward be m (seqs b) (seq_lens b) g = Inr (out, g1)"
      and sq: "squeeze1 out = Inr p"
      and cr: "criterion p (labels b) = Inr l"
      and ba: "batchAccuracy (entries p) (labels b) = Inr a"
      and r4: "eval_batches be m bs (acc + a, g1) = Inr (acc', g')"
    by (auto dest!: bindE_Inr)
  have "length (entries p) = length (labels b)"
    using criterion_Inr [OF cr] by (rule entries_length)
  from batchAccuracy_bounds [OF ba this] have a: "0 \<le> a" "a \<le> 1" by simp_all
  from Cons.IH [OF r4] a show ?case by simp
qed


lemma eval_step_ok:
  assumes init: "MyRNN_init init tag = Inr m0" and arch: "architecture m = architecture m0"
    and tag: "tag \<in> {''RNN'', ''GRU'', ''LSTM'', ''BiLSTM''}"
    and wf: "well_formed_batch b"
  shows "\<exists>out g1 p l a. forward be m (seqs b) (seq_lens b) g = Inr (out, g1)
           \<and> (\<not> training m \<longrightarrow> g1 = g)
           \<and> squeeze1 out = Inr p \<and> criterion p (labels b) = Inr l
           \<and> batchAccuracy (entries p) (labels b) = Inr a \<and> 0 \<le> a \<and> a \<le> 1"
proof -
  from wf have inp: "batch_input (seqs b) (seq_lens b) (length (labels b))"
    by (simp add: well_formed_batch_def)
  then have ne: "0 < length (labels b)" by (simp add: batch_input_def)
  from forward_ok [OF init arch tag inp, of be g] obtain out g1
    where fw: "forward be m (seqs b) (seq_lens b) g = Inr (Tensor out, g1)"
      and sh: "shape out = [length (labels b), 1]" and g1: "\<not> training m \<longrightarrow> g1 = g"
    by blast
  from squeeze1_ok [OF sh] obtain p where sq: "squeeze1 (Tensor out) = Inr p"
    and p: "shape p = [length (labels b)]" by blast
  from criterion_ok [OF p] obtain l where cr: "criterion p (labels b) = Inr l" by blast
  have len: "length (entries p) = length (labels b)" by (rule entries_length [OF p])
  with ne have "entries p \<noteq> []" by auto
  from batchAccuracy_total [OF len this] obtain a
    where ba: "batchAccuracy (entries p) (labels b) = Inr a" by blast
  from batchAccuracy_bounds [OF ba len] fw g1 sq cr ba show ?thesis by blast
qed

lemma eval_batches_total:
  assumes init: "MyRNN_init init tag = Inr m0" and arch: "architecture m = architecture m0"
    and tag: "tag \<in> {''RNN'', ''GRU'', ''LSTM'', ''BiLSTM''}"
  shows "list_all well_formed_batch bs \<Longrightarrow>
         \<exists>acc' g'. eval_batches be m bs (acc, g) = Inr (acc', g') \<and> (\<not> training m \<longrightarrow> g' = g)"
proof (induction bs arbitrary: acc g)
  case Nil
  then show ?case by simp
next
  case (Cons b bs)
  then have wf: "well_formed_batch b" and rest: "list_all well_formed_batch bs" by simp_all
  from eval_step_ok [OF init arch tag wf, of be g] obtain out g1 p l a
    where fw: "forward be m (seqs b) (seq_lens b) g = Inr (out, g1)"
      and g1: "\<not> training m \<longrightarrow> g1 = g"
      and sq: "squeeze1 out = Inr p" and cr: "criterion p (labels b) = Inr l"
      and ba: "batchAccuracy (entries p) (labels b) = Inr a"
    by blast
  from Cons.IH [OF rest, of "acc + a" g1] obtain acc' g'
    where "eval_batches be m bs (acc + a, g1) = Inr (acc', g')" and "\<not> training m \<longrightarrow> g' = g1"
    by blast
  with fw sq cr ba g1 show ?case by (simp add: bindE_def)
qed

lemma eval_model_bounds:
  assumes "eval_model be testIterator m g = Inr (pct, g')"
  shows "0 \<le> pct \<and> pct \<le> 100"
proof -
  from assms obtain accuracy where ev: "eval_batches be m testIterator (0, g) = Inr (accuracy, g')"
    and ne: "length testIterator \<noteq> 0"
    and pct: "pct = accuracy / real (length testIterator) * 100"
    by (auto simp add: eval_model_def dest!: bindE_Inr split: if_splits)
  from eval_batches_bounds [OF ev] have "0 \<le> accuracy" "accuracy \<le> real (length testIterator)"
    by simp_all
  moreover from ne have "0 < real (length testIterator)" by simp
  ultimately have "0 \<le> accuracy / real (length testIterator)"
    and "accuracy / real (length testIterator) \<le> 1" by simp_all
  moreover have "0 \<le> q * 100 \<and> q * 100 \<le> 100" if "0 \<le> q" and "q \<le> 1" for q :: real
    using that by simp
  ultimately show ?thesis unfolding pct by blast
qed

lemma eval_model_ok:
  assumes init: "MyRNN_init init tag = Inr m0" and arch: "architecture m = architecture m0"
    and tag: "tag \<in> {''RNN'', ''GRU'', ''LSTM'', ''BiLSTM''}"
    and ne: "testIterator \<noteq> []" and wf: "list_all well_formed_batch testIterator"
  shows "\<exists>pct g'. eval_model be testIterator m g = Inr (pct, g') \<and> 0 \<le> pct \<and> pct \<le> 100"
proof -
  from eval_batches_total [OF init arch tag wf, of be 0 g] obtain acc' g'
    where "eval_batches be m testIterator (0, g) = Inr (acc', g')" by blast
  with ne have "eval_model be testIterator m g = Inr (acc' / real (length testIterator) * 100, g')"
    by (simp add: eval_model_def bindE_def)
  with eval_model_bounds [OF this] show ?thesis by blast
qed

text \<open>
  Claim C5. For each of the four variants and every non-empty stream of well-formed
  batches (each with at least one example and one label per example), the evaluation
  of a model returns a percentage between 0 and 100, and on every batch of the stream
  the forward pass, the squeeze and \<open>batchAccuracy\<close> return an accuracy between 0 and
  1. Whatever the model and the stream, a percentage that the evaluation returns is
  between 0 and 100.
\<close>

theorem evaluation_accuracy_bounds:
  assumes "tag \<in> {''RNN'', ''GRU'', ''LSTM'', ''BiLSTM''}"
    and "MyRNN_init init tag = Inr m0" and "architecture m = architecture m0"
    and "testIterator \<noteq> []" and "list_all well_formed_batch testIterator"
  shows "(\<exists>pct g'. eval_model be testIterator m g = Inr (pct, g') \<and> 0 \<le> pct \<and> pct \<le> 100)
       \<and> list_all (\<lambda>b. \<forall>g. \<exists>out g1 p a. forward be m (seqs b) (seq_lens b) g = Inr (out, g1)
                      \<and> squeeze1 out = Inr p
                      \<and> batchAccuracy (entries p) (labels b) = Inr a \<and> 0 \<le> a \<and> a \<le> 1) testIterator
       \<and> (\<forall>m' g0 pct' g1. eval_model be testIterator m' g0 = Inr (pct', g1) \<longrightarrow> 0 \<le> pct' \<and> pct' \<le> 100)"
proof -
  have "\<forall>g. \<exists>out g1 p a. forward be m (seqs b) (seq_lens b) g = Inr (out, g1)
                      \<and> squeeze1 out = Inr p
                      \<and> batchAccuracy (entries p) (labels b) = Inr a \<and> 0 \<le> a \<and> a \<le> 1"
    if "b \<in> set testIterator" for b
  proof -
    from that assms(5) have "well_formed_batch b" by (simp add: list_all_iff)
    from eval_step_ok [OF assms(2,3,1) this, of be] show ?thesis by blast
  qed
  then have "list_all (\<lambda>b. \<forall>g. \<exists>out g1 p a. forward be m (seqs b) (seq_lens b) g = Inr (out, g1)
                      \<and> squeeze1 out = Inr p
                      \<and> batchAccuracy (entries p) (labels b) = Inr a \<and> 0 \<le> a \<and> a \<le> 1) testIterator"
    by (simp add: list_all_iff)
  with eval_model_ok [OF assms(2,3,1,4,5), of be g] eval_model_bounds [of be testIterator]
  show ?thesis by blast
qed

lemma tiny_batch_well_formed: "well_formed_batch tiny_batch"
  by (simp add: well_formed_batch_def batch_input_def tiny_batch_def vocabSize_def)

theorem evaluation_accuracy_bounds_witness:
  "''LSTM'' \<in> {''RNN'', ''GRU'', ''LSTM'', ''BiLSTM''}
   \<and> [tiny_batch, tiny_batch] \<noteq> []
   \<and> list_all well_formed_batch [tiny_batch, tiny_batch]
   \<and> (\<exists>m0. MyRNN_init zero_init ''LSTM'' = Inr m0 \<and> architecture (model_eval m0) = architecture m0
        \<and> (\<exists>pct g'. eval_model const_backend [tiny_batch, tiny_batch] (model_eval m0) 0 = Inr (pct, g')
              \<and> 0 \<le> pct \<and> pct \<le> 100))"
proof -
  obtain m0 where m0: "MyRNN_init zero_init ''LSTM'' = Inr m0"
    by (simp add: MyRNN_init_eq)
  have arch: "architecture (model_eval m0) = architecture m0"
    by (simp add: architecture_def model_eval_def)
  have tag: "''LSTM'' \<in> {''RNN'', ''GRU'', ''LSTM'', ''BiLSTM''}" by simp
  have ne: "[tiny_batch, tiny_batch] \<noteq> []" by simp
  have wf: "list_all well_formed_batch [tiny_batch, tiny_batch]"
    by (simp add: tiny_batch_well_formed)
  from evaluation_accuracy_bounds [OF tag m0 arch ne wf, of const_backend 0] m0 arch tag ne wf
  show ?thesis by blast
qed

section \<open>Loading, training and the reserved rows\<close>

lemma load_pretrained_rows:
  assumes "load_pretrained pre m = Inr m1" and "embedding_dim (embed m) = embeddingSize"
  shows "\<forall>j<embeddingSize. weights m1 (EmbedW unk j) = 0 \<and> weights m1 (EmbedW pad j) = 0"
    and "architecture m1 = architecture m"
    and "training m1 = training m"
  using assms
  by (auto simp add: load_pretrained_def embed_weight_copy_def embed_weight_set_row_def Let_def
      zeros_def architecture_def unk_def pad_def embeddingSize_def
      dest!: bindE_Inr split: if_splits)

lemma train_batch_result:
  assumes "train_batch be b s = Inr s'"
  shows "model s' = snd (optimizer_step (optimizer s) (loss_backward be (gen s) (zero_grad (model s)) b))"
    and "optimizer s' = fst (optimizer_step (optimizer s) (loss_backward be (gen s) (zero_grad (model s)) b))"
  using assms
  by (auto simp add: train_batch_def Let_def dest!: bindE_Inr split: prod.splits)

lemma optimizer_step_architecture:
  "architecture (snd (optimizer_step opt m)) = architecture m"
  "training (snd (optimizer_step opt m)) = training m"
  by (simp_all add: optimizer_step_def Let_def architecture_def)

lemma loss_backward_architecture:
  "architecture (loss_backward be g (zero_grad m) b) = architecture m"
  "training (loss_backward be g (zero_grad m) b) = training m"
  by (simp_all add: loss_backward_def zero_grad_def architecture_def)

lemma train_batch_architecture:
  assumes "train_batch be b s = Inr s'"
  shows "architecture (model s') = architecture (model s)"
  unfolding train_batch_result(1) [OF assms]
  by (simp add: optimizer_step_architecture loss_backward_architecture)

lemma loss_backward_pad_row:
  assumes "padding_idx (embed m) = Some i"
  shows "grads (loss_backward be g (zero_grad m) b) (EmbedW i j) = 0"
  using assms by (simp add: loss_backward_def zero_grad_def embedding_backward_def)

lemma optimizer_step_zero_grad:
  assumes "grads m k = 0" and "exp_avg opt k = 0"
  shows "weights (snd (optimizer_step opt m)) k = weights m k"
    and "exp_avg (fst (optimizer_step opt m)) k = 0"
  using assms by (simp_all add: optimizer_step_def Let_def)

lemma train_batch_pad_frozen:
  assumes "train_batch be b s = Inr s'" and "pad_frozen j s"
  shows "pad_frozen j s'"
proof -
  let ?m = "loss_backward be (gen s) (zero_grad (model s)) b"
  from assms(2) have p: "padding_idx (embed (model s)) = Some pad"
    and w: "weights (model s) (EmbedW pad j) = 0" and e: "exp_avg (optimizer s) (EmbedW pad j) = 0"
    by (simp_all add: pad_frozen_def)
  have g: "grads ?m (EmbedW pad j) = 0" by (rule loss_backward_pad_row [OF p])
  have w': "weights ?m (EmbedW pad j) = 0" using w by (simp add: loss_backward_def zero_grad_def)
  have "embed (model s') = embed (model s)"
    using train_batch_architecture [OF assms(1)] by (simp add: architecture_def)
  with p optimizer_step_zero_grad [OF g e] w' show ?thesis
    unfolding pad_frozen_def train_batch_result [OF assms(1)] by simp
qed

lemma train_batches_pad_frozen:
  "train_batches be bs s = Inr s' \<Longrightarrow> pad_frozen j s \<Longrightarrow> pad_frozen j s'"
proof (induction bs arbitrary: s)
  case Nil
  then show ?case by simp
next
  case (Cons b bs)
  from Cons.prems(1) obtain s1 where s1: "train_batch be b s = Inr s1"
    and rest: "train_batches be bs s1 = Inr s'"
    by (auto dest!: bindE_Inr)
  from Cons.IH [OF rest train_batch_pad_frozen [OF s1 Cons.prems(2)]] show ?case .
qed

lemma train_epochs_pad_frozen:
  "train_epochs be it n s = Inr (s', printed) \<Longrightarrow> pad_frozen j s \<Longrightarrow> pad_frozen j s'"
proof (induction n arbitrary: s printed)
  case 0
  then show ?case by simp
next
  case (Suc n)
  from Suc.prems(1) obtain s1 pr where s1: "train_batches be it (s\<lparr>epochLoss := 0\<rparr>) = Inr s1"
    and rest: "train_epochs be it n s1 = Inr (s', pr)"
    by (auto dest!: bindE_Inr split: if_splits)
  have "pad_frozen j (s\<lparr>epochLoss := 0\<rparr>)" using Suc.prems(2) by (simp add: pad_frozen_def)
  from Suc.IH [OF rest train_batches_pad_frozen [OF s1 this]] show ?case .
qed

lemma train_batch_ok:
  assumes init: "MyRNN_init init tag = Inr m0" and arch: "architecture (model s) = architecture m0"
    and tag: "tag \<in> {''RNN'', ''GRU'', ''LSTM'', ''BiLSTM''}"
    and wf: "well_formed_batch b"
  shows "\<exists>s'. train_batch be b s = Inr s' \<and> architecture (model s') = architecture m0"
proof -
  have arch0: "architecture (zero_grad (model s)) = architecture m0"
    using arch by (simp add: zero_grad_def architecture_def)
  from eval_step_ok [OF init arch0 tag wf, of be "gen s"] obtain out g1 p l
    where fw: "forward be (zero_grad (model s)) (seqs b) (seq_lens b) (gen s) = Inr (out, g1)"
      and sq: "squeeze1 out = Inr p" and cr: "criterion p (labels b) = Inr l"
    by blast
  then have "\<exists>s'. train_batch be b s = Inr s'"
    by (simp add: train_batch_def bindE_def Let_def split: prod.split)
  then obtain s' where s': "train_batch be b s = Inr s'" ..
  from train_batch_architecture [OF s'] arch s' show ?thesis by simp
qed

lemma train_batches_ok:
  assumes init: "MyRNN_init init tag = Inr m0"
    and tag: "tag \<in> {''RNN'', ''GRU'', ''LSTM'', ''BiLSTM''}"
  shows "list_all well_formed_batch bs \<Longrightarrow> architecture (model s) = architecture m0 \<Longrightarrow>
         \<exists>s'. train_batches be bs s = Inr s' \<and> architecture (model s') = architecture m0"
proof (induction bs arbitrary: s)
  case Nil
  then show ?case by simp
next
  case (Cons b bs)
  then have wf: "well_formed_batch b" and rest: "list_all well_formed_batch bs" by simp_all
  from train_batch_ok [OF init Cons.prems(2) tag wf, of be] obtain s1
    where s1: "train_batch be b s = Inr s1" and a1: "architecture (model s1) = architecture m0"
    by blast
  from Cons.IH [OF rest a1] s1 show ?case by (simp add: bindE_def)
qed

lemma train_epochs_ok:
  assumes init: "MyRNN_init init tag = Inr m0"
    and tag: "tag \<in> {''RNN'', ''GRU'', ''LSTM'', ''BiLSTM''}"
    and ne: "trainIterator \<noteq> []" and wf: "list_all well_formed_batch trainIterator"
  shows "architecture (model s) = architecture m0 \<Longrightarrow>
         \<exists>s' printed. train_epochs be trainIterator n s = Inr (s', printed)
            \<and> architecture (model s') = architecture m0"
proof (induction n arbitrary: s)
  case 0
  then show ?case by simp
next
  case (Suc n)
  have "architecture (model (s\<lparr>epochLoss := 0\<rparr>)) = architecture m0"
    using Suc.prems by simp
  from train_batches_ok [OF init tag wf this, of be] obtain s1
    where s1: "train_batches be trainIterator (s\<lparr>epochLoss := 0\<rparr>) = Inr s1"
      and a1: "architecture (model s1) = architecture m0"
    by blast
  from Suc.IH [OF a1] obtain s' printed
    where "train_epochs be trainIterator n s1 = Inr (s', printed)"
      and "architecture (model s') = architecture m0"
    by blast
  with s1 ne show ?case by (simp add: bindE_def)
qed

text \<open>
  Claim C2 (amended). After construction and the loading of the pretrained vectors the
  rows of the unknown token and of the padding token are zero, whatever the pretrained
  matrix holds. Training a variant on a non-empty stream of well-formed batches returns,
  and the padding row, which is the padding index of the embedding, is zero after every
  optimizer step: after the whole training, and after \<open>k\<close> further steps following any
  number \<open>n\<close> of complete epochs. Nothing of the kind is stated for the row of the
  unknown token, which is trained like the rows of the ordinary tokens.
\<close>

theorem reserved_rows_zero_and_pad_row_frozen:
  assumes tag: "tag \<in> {''RNN'', ''GRU'', ''LSTM'', ''BiLSTM''}"
    and init: "MyRNN_init init tag = Inr m0"
    and load: "load_pretrained reviewVocabVectors m0 = Inr m1"
    and ne: "trainIterator \<noteq> []" and wf: "list_all well_formed_batch trainIterator"
    and s0: "s0 = \<lparr>model = model_train m1, optimizer = Adam, gen = manual_seed be 0, epochLoss = 0\<rparr>"
  shows "(\<forall>j<embeddingSize. weights m1 (EmbedW unk j) = 0 \<and> weights m1 (EmbedW pad j) = 0)
       \<and> (\<exists>s printed. train_model be trainIterator (model_train m1) = Inr (s, printed)
             \<and> (\<forall>j<embeddingSize. weights (model s) (EmbedW pad j) = 0))
       \<and> (\<forall>n k. \<exists>s printed s'. train_epochs be trainIterator n s0 = Inr (s, printed)
             \<and> train_batches be (take k trainIterator) (s\<lparr>epochLoss := 0\<rparr>) = Inr s'
             \<and> (\<forall>j<embeddingSize. weights (model s') (EmbedW pad j) = 0))"
proof -
  note a = architecture_init [OF init refl]
  have dim: "embedding_dim (embed m0) = embeddingSize" by (simp add: a(3))
  note l = load_pretrained_rows [OF load dim]
  have arch0: "architecture (model s0) = architecture m0"
    using l(2) by (simp add: s0 model_train_def architecture_def)
  have pidx: "padding_idx (embed m1) = Some pad"
    using l(2) a(3) by (simp add: architecture_def)
  have frozen0: "pad_frozen j s0" if "j < embeddingSize" for j
    using that l(1) pidx by (simp add: pad_frozen_def s0 model_train_def Adam_def)
  have steps: "\<exists>s printed s'. train_epochs be trainIterator n s0 = Inr (s, printed)
             \<and> train_batches be (take k trainIterator) (s\<lparr>epochLoss := 0\<rparr>) = Inr s'
             \<and> (\<forall>j<embeddingSize. weights (model s') (EmbedW pad j) = 0)" for n k
  proof -
    from train_epochs_ok [OF init tag ne wf arch0, of be n] obtain s printed
      where ep: "train_epochs be trainIterator n s0 = Inr (s, printed)"
        and as: "architecture (model s) = architecture m0"
      by blast
    have wfk: "list_all well_formed_batch (take k trainIterator)"
      using wf by (auto simp add: list_all_iff dest: in_set_takeD)
    have "architecture (model (s\<lparr>epochLoss := 0\<rparr>)) = architecture m0" using as by simp
    from train_batches_ok [OF init tag wfk this, of be] obtain s'
      where bs: "train_batches be (take k trainIterator) (s\<lparr>epochLoss := 0\<rparr>) = Inr s'"
      by blast
    have "weights (model s') (EmbedW pad j) = 0" if "j < embeddingSize" for j
    proof -
      have "pad_frozen j s" by (rule train_epochs_pad_frozen [OF ep frozen0 [OF that]])
      then have "pad_frozen j (s\<lparr>epochLoss := 0\<rparr>)" by (simp add: pad_frozen_def)
      from train_batches_pad_frozen [OF bs this] show ?thesis by (simp add: pad_frozen_def)
    qed
    with ep bs show ?thesis by blast
  qed
  have full: "\<exists>s printed. train_model be trainIterator (model_train m1) = Inr (s, printed)
             \<and> (\<forall>j<embeddingSize. weights (model s) (EmbedW pad j) = 0)"
  proof -
    from train_epochs_ok [OF init tag ne wf arch0, of be numEpochs] obtain s printed
      where ep: "train_epochs be trainIterator numEpochs s0 = Inr (s, printed)"
      by blast
    have "weights (model s) (EmbedW pad j) = 0" if "j < embeddingSize" for j
      using train_epochs_pad_frozen [OF ep frozen0 [OF that]] by (simp add: pad_frozen_def)
    with ep show ?thesis unfolding train_model_def s0 by blast
  qed
  from l(1) full steps show ?thesis by blast
qed

lemma load_pretrained_ok:
  assumes "MyRNN_init init tag = Inr m0" and "nrows pre = vocabSize" and "ncols pre = embeddingSize"
  shows "\<exists>m1. load_pretrained pre m0 = Inr m1"
  using assms
  by (auto simp add: MyRNN_init_eq load_pretrained_def embed_weight_copy_def
      embed_weight_set_row_def Let_def bindE_def zeros_def unk_def pad_def vocabSize_def)

section \<open>The gradient of the unknown row\<close>

lemma sigmoid_pos: "0 < sigmoid x"
  by (simp add: sigmoid_def add_pos_pos)

lemma tanh_square_less_1: "(tanh (x::real))\<^sup>2 < 1"
proof -
  have "\<bar>tanh x\<bar> < 1" using tanh_real_lt_1 [of x] tanh_real_gt_neg1 [of x] by (simp add: abs_less_iff)
  then show ?thesis by (simp add: abs_square_less_1)
qed

lemma adam_first_step:
  assumes "grads m k = g" and "0 < g"
  shows "weights (snd (optimizer_step Adam m)) k = weights m k - adam_lr * (g / (g + adam_eps))"
proof -
  have form: "weights (snd (optimizer_step Adam m)) k =
                weights m k - (adam_lr / (1 - adam_beta1))
                  * ((1 - adam_beta1) * g / (sqrt ((1 - adam_beta2) * g\<^sup>2) / sqrt (1 - adam_beta2) + adam_eps))"
    by (simp add: optimizer_step_def Let_def Adam_def assms(1))
  have b2: "0 < 1 - adam_beta2" and b1: "1 - adam_beta1 \<noteq> 0"
    by (simp_all add: adam_beta2_def adam_beta1_def)
  have "sqrt ((1 - adam_beta2) * g\<^sup>2) = sqrt (1 - adam_beta2) * g"
    using assms(2) by (simp add: real_sqrt_mult)
  moreover have "sqrt (1 - adam_beta2) \<noteq> 0" using b2 by simp
  ultimately have sq: "sqrt ((1 - adam_beta2) * g\<^sup>2) / sqrt (1 - adam_beta2) = g"
    by simp
  show ?thesis unfolding form sq using b1 by simp
qed

lemma adam_first_step_bounds:
  assumes "grads m k = g" and "0 < g" and "weights m k = 0"
  shows "- (1 / 1000) < weights (snd (optimizer_step Adam m)) k"
    and "weights (snd (optimizer_step Adam m)) k < 0"
proof -
  have e: "0 < adam_eps" by (simp add: adam_eps_def)
  have "0 < g / (g + adam_eps)" and "g / (g + adam_eps) < 1"
    using assms(2) e by (simp_all add: add_pos_pos)
  moreover have "- (1 / 1000) < 0 - adam_lr * q \<and> 0 - adam_lr * q < 0"
    if "0 < q" and "q < 1" for q :: real
    using that by (simp add: adam_lr_def)
  ultimately show "- (1 / 1000) < weights (snd (optimizer_step Adam m)) k"
    and "weights (snd (optimizer_step Adam m)) k < 0"
    unfolding adam_first_step [OF assms(1,2)] assms(3) by blast+
qed

lemma load_pretrained_other_weights:
  assumes "load_pretrained pre m = Inr m1"
  shows "weights m1 (RnnP q) = weights m (RnnP q)" and "weights m1 (DenseP q) = weights m (DenseP q)"
  using assms
  by (auto simp add: load_pretrained_def embed_weight_copy_def embed_weight_set_row_def Let_def
      dest!: bindE_Inr split: if_splits)


lemma unk_batch_well_formed: "well_formed_batch unk_batch"
  by (simp add: well_formed_batch_def batch_input_def unk_batch_def vocabSize_def)

lemma unk_gradient:
  assumes init: "MyRNN_init init ''RNN'' = Inr m0" and arch: "architecture m = architecture m0"
  shows "grads (loss_backward rnn_backend g (zero_grad m) unk_batch) (EmbedW unk 0)
           = (\<Sum>k < hiddenSize. dpre (zero_grad m) [[0]] [1] [0] 0 0 k
                                  * weights m (RnnP (k * embeddingSize)))
             / (1 - dropoutRate)"
proof -
  have arch0: "architecture (zero_grad m) = architecture m0"
    using arch by (simp add: architecture_def zero_grad_def)
  note a = architecture_init [OF init arch0]
  have w: "weights (zero_grad m) = weights m" by (simp add: zero_grad_def)
  show ?thesis
    by (simp add: loss_backward_def embedding_backward_def unk_batch_def rnn_backend_def
        rnn_grad_embedded_def a rnn_w_ih_def w unk_def pad_def enumerate_simps)
      (simp add: zero_grad_def)
qed

lemma dpre_unk_pos:
  assumes init: "MyRNN_init init ''RNN'' = Inr m0" and arch: "architecture m = architecture m0"
    and dw: "0 < weights m (DenseP k)"
  shows "0 < dpre m [[0]] [1] [0] 0 0 k"
proof -
  note a = architecture_init [OF init arch]
  have d: "0 < 1 - dropout m" by (simp add: a(6) dropoutRate_def)
  have "0 < dlogit m [[0]] [1] [0] 0"
    by (simp add: dlogit_def sigmoid_pos)
  with dw d have "0 < dhidden m [[0]] [1] [0] 0 0 k" by simp
  then have A: "0 < dhidden m [[0]] [1] [0] 0 ([1] ! 0 - Suc 0) k" by simp
  have B: "0 < 1 - (hidden_at m [[0]] 0 (Suc 0) k)\<^sup>2"
    using tanh_square_less_1 by (simp add: hidden_at_def)
  show ?thesis unfolding dpre_def using A B by (rule mult_pos_pos)
qed

lemma unk_gradient_pos:
  assumes init: "MyRNN_init init ''RNN'' = Inr m0" and arch: "architecture m = architecture m0"
    and dw: "\<And>k. 0 < weights m (DenseP k)" and rw: "\<And>q. 0 < weights m (RnnP q)"
  shows "0 < grads (loss_backward rnn_backend g (zero_grad m) unk_batch) (EmbedW unk 0)"
proof -
  have arch0: "architecture (zero_grad m) = architecture m0"
    using arch by (simp add: architecture_def zero_grad_def)
  have w: "weights (zero_grad m) = weights m" by (simp add: zero_grad_def)
  have "0 < dpre (zero_grad m) [[0]] [1] [0] 0 0 k * weights m (RnnP (k * embeddingSize))" for k
    using dpre_unk_pos [OF init arch0, of k] dw rw by (simp add: w)
  then have "0 < (\<Sum>k < hiddenSize. dpre (zero_grad m) [[0]] [1] [0] 0 0 k
                                  * weights m (RnnP (k * embeddingSize)))"
  proof (intro sum_pos)
    have "0 \<in> {..<hiddenSize}" by (simp add: hiddenSize_def)
    then show "{..<hiddenSize} \<noteq> {}" by blast
  qed simp_all
  moreover have "0 < 1 - dropoutRate" by (simp add: dropoutRate_def)
  ultimately show ?thesis unfolding unk_gradient [OF init arch] by simp
qed


lemma bce_softplus: "bce_with_logits x y = ln (1 + exp x) - x * y"
proof (cases "0 \<le> x")
  case True
  have "ln (1 + exp x) = ln (exp x * (1 + exp (- x)))"
    by (simp add: distrib_left exp_minus_inverse add.commute)
  also have "\<dots> = x + ln (1 + exp (- x))"
    by (subst ln_mult_pos) (simp_all add: add_pos_pos)
  finally show ?thesis using True by (simp add: bce_with_logits_def)
next
  case False
  then show ?thesis by (simp add: bce_with_logits_def)
qed

lemma kept_embedding_dropout:
  "(\<lambda>i. (case i of [t, b, j] \<Rightarrow> weights m (EmbedW (tokens ! t ! b) j) | _ \<Rightarrow> 0) / (1 - dropout m))
     = kept_embedding m tokens"
  by (simp add: kept_embedding_def fun_eq_iff split: list.split)

lemma forward_rnn_logits:
  assumes init: "MyRNN_init init ''RNN'' = Inr m0" and arch: "architecture m = architecture m0"
    and tr: "training m" and inp: "batch_input tokens lens B"
  shows "\<exists>out g'. forward rnn_backend m tokens lens g = Inr (Tensor out, g')
           \<and> shape out = [B, 1] \<and> (\<forall>b. val out [b, 0] = logit m tokens lens b)"
proof -
  note a = architecture_init [OF init arch]
  have tag: "''RNN'' \<in> {''RNN'', ''GRU'', ''LSTM'', ''BiLSTM''}" by simp
  let ?e = "\<lparr>shape = [length tokens, B, embeddingSize],
             val = (\<lambda>idx. case idx of [t, b, j] \<Rightarrow> weights m (EmbedW (tokens ! t ! b) j) | _ \<Rightarrow> 0)\<rparr>"
  have e: "embedding_fwd (embed m) (weights m) tokens = Inr ?e"
    using embedding_fwd_ok [OF inp, of "embed m" "weights m"] by (simp add: a(3))
  let ?emb = "\<lparr>shape = [length tokens, B, embeddingSize], val = kept_embedding m tokens\<rparr>"
  have d1: "dropout_fwd rnn_backend m (Tensor ?e) g = Inr (Tensor ?emb, Suc g)"
    using tr by (simp add: dropout_fwd_def rnn_backend_def kept_embedding_dropout)
  have pk: "pack_padded_sequence (Tensor ?emb) lens = Inr \<lparr>padded = ?emb, lengths = lens\<rparr>"
    by (rule pack_padded_sequence_ok [OF inp, where E = embeddingSize]) (simp, simp add: embeddingSize_def)
  let ?pk = "\<lparr>padded = ?emb, lengths = lens\<rparr>"
  define hn where "hn = (\<lambda>idx. case idx of [d, b, k] \<Rightarrow> hidden_at m tokens b (lens ! b) k | _ \<Rightarrow> 0)"
  obtain out where rec: "recurrent rnn_backend (rnn m) (weights m) ?pk = (out, hn, (\<lambda>idx. 0))"
    by (simp add: rnn_backend_def rnn_recurrent_def hidden_at_def hn_def)
  have lens: "list_all (\<lambda>l. l \<le> length tokens) (lengths ?pk)"
    using inp by (auto simp add: batch_input_def list_all_iff)
  have run: "run_rnn rnn_backend m ?pk =
           Inr (\<lparr>padded = \<lparr>shape = [length tokens, B, (if ''RNN'' = ''BiLSTM'' then 2 else 1) * hiddenSize], val = out\<rparr>,
                 lengths = lengths ?pk\<rparr>,
                Tensor \<lparr>shape = [if ''RNN'' = ''BiLSTM'' then 2 else 1, B, hiddenSize], val = hn\<rparr>)"
    by (rule run_rnn_ok [OF init arch tag _ lens rec]) simp
  define sel where "sel = \<lparr>shape = [B, hiddenSize], val = (\<lambda>idx. hn (0 # idx))\<rparr>"
  have sel: "select_hidden m (Tensor \<lparr>shape = [if ''RNN'' = ''BiLSTM'' then 2 else 1, B, hiddenSize], val = hn\<rparr>)
               = Inr (Tensor sel)"
    using select_hidden_ok [OF init arch, of B hn] by (simp add: sel_def)
  define dr where "dr = \<lparr>shape = [B, hiddenSize], val = (\<lambda>i. hn (0 # i) / (1 - dropout m))\<rparr>"
  have d2: "dropout_fwd rnn_backend m (Tensor sel) (Suc g) = Inr (Tensor dr, Suc (Suc g))"
    using tr by (simp add: dropout_fwd_def rnn_backend_def sel_def dr_def)
  define res where "res = \<lparr>shape = [B, 1],
               val = (\<lambda>idx. (\<Sum>j < hiddenSize.
                                weights m (DenseP (last idx * hiddenSize + j)) * val dr (butlast idx @ [j]))
                            + weights m (DenseP (1 * hiddenSize + last idx)))\<rparr>"
  have lin: "linear_fwd (dense m) (weights m) (Tensor dr) = Inr (Tensor res)"
    by (simp add: linear_fwd_def a(5) res_def dr_def)
  have fw: "forward rnn_backend m tokens lens g = Inr (Tensor res, Suc (Suc g))"
    unfolding forward_def e bindE_def
    using run sel by (simp add: d1 pk d2 lin pad_packed_sequence_def del: One_nat_def)
  have "val res [b, 0] = logit m tokens lens b" for b
    by (simp add: logit_def a(5) res_def dr_def hn_def)
  moreover have "shape res = [B, 1]" by (simp add: res_def)
  ultimately show ?thesis using fw by blast
qed


lemma train_loss_rnn:
  assumes init: "MyRNN_init init ''RNN'' = Inr m0" and arch: "architecture m = architecture m0"
    and tr: "training m" and wf: "well_formed_batch b"
  shows "bindE (forward rnn_backend m (seqs b) (seq_lens b) g) (\<lambda>(out, g1).
         bindE (squeeze1 out) (\<lambda>p. criterion p (labels b)))
           = Inr ((\<Sum>i < length (labels b).
                     bce_with_logits (logit m (seqs b) (seq_lens b) i) (labels b ! i))
                  / real (length (labels b)))"
proof -
  from wf have inp: "batch_input (seqs b) (seq_lens b) (length (labels b))"
    by (simp add: well_formed_batch_def)
  from forward_rnn_logits [OF init arch tr inp, of g] obtain out g'
    where fw: "forward rnn_backend m (seqs b) (seq_lens b) g = Inr (Tensor out, g')"
      and sh: "shape out = [length (labels b), 1]"
      and v: "\<And>i. val out [i, 0] = logit m (seqs b) (seq_lens b) i"
    by blast
  show ?thesis
    by (simp add: fw bindE_def squeeze1_def sh criterion_def v)
qed

lemma hidden_unk:
  assumes init: "MyRNN_init init ''RNN'' = Inr m0" and arch: "architecture m = architecture m0"
  shows "hidden_at m [[0]] 0 (Suc 0) k =
             tanh ((\<Sum>j \<in> {..<embeddingSize} - {0}.
                          weights m (RnnP (k * embeddingSize + j))
                          * (weights m (EmbedW 0 j) / (1 - dropoutRate)))
                       + rnn_b_ih (rnn m) (weights m) k + rnn_b_hh (rnn m) (weights m) k
                       + weights m (RnnP (k * embeddingSize)) * (weights m (EmbedW 0 0) / (1 - dropoutRate)))"
proof -
  note a = architecture_init [OF init arch]
  have split: "(\<Sum>j < embeddingSize. f j) = f 0 + (\<Sum>j \<in> {..<embeddingSize} - {0}. f j)"
    for f :: "nat \<Rightarrow> real"
    by (rule sum.remove) (simp_all add: embeddingSize_def)
  show ?thesis
    by (simp add: hidden_at_def kept_embedding_def rnn_w_ih_def a(4,6) split [of "\<lambda>j. _ j"]
        algebra_simps)
qed

lemma logit_unk:
  assumes init: "MyRNN_init init ''RNN'' = Inr m0" and arch: "architecture m = architecture m0"
  shows "logit m [[0]] [1] 0 =
           (\<Sum>k < hiddenSize.
              weights m (DenseP k)
              * (tanh ((\<Sum>j \<in> {..<embeddingSize} - {0}.
                          weights m (RnnP (k * embeddingSize + j))
                          * (weights m (EmbedW 0 j) / (1 - dropoutRate)))
                       + rnn_b_ih (rnn m) (weights m) k + rnn_b_hh (rnn m) (weights m) k
                       + weights m (RnnP (k * embeddingSize)) * (weights m (EmbedW 0 0) / (1 - dropoutRate)))
                 / (1 - dropoutRate)))
           + weights m (DenseP hiddenSize)"
proof -
  note a = architecture_init [OF init arch]
  show ?thesis
    by (simp add: logit_def a(5,6) hidden_unk [OF init arch])
qed

lemma sigmoid_exp: "sigmoid x = exp x / (1 + exp x)"
proof -
  have "exp x * (1 + exp (- x)) = exp x + 1"
    by (simp add: distrib_left exp_minus_inverse)
  then have "exp x / (1 + exp x) = exp x / (exp x * (1 + exp (- x)))"
    by (simp add: add.commute)
  also have "\<dots> = 1 / (1 + exp (- x))" by simp
  finally show ?thesis by (simp add: sigmoid_def)
qed

lemma unk_gradient_is_derivative:
  assumes init: "MyRNN_init init ''RNN'' = Inr m0" and arch: "architecture m = architecture m0"
    and tr: "training m"
  shows "\<exists>L. (\<forall>v. bindE (forward rnn_backend ((zero_grad m)\<lparr>weights := (weights m)(EmbedW unk 0 := v)\<rparr>)
                          (seqs unk_batch) (seq_lens unk_batch) g) (\<lambda>(out, g1).
                    bindE (squeeze1 out) (\<lambda>p. criterion p (labels unk_batch))) = Inr (L v))
           \<and> (L has_real_derivative
                 grads (loss_backward rnn_backend g (zero_grad m) unk_batch) (EmbedW unk 0))
               (at (weights m (EmbedW unk 0)))"
proof -
  define q where "q = 1 - dropoutRate"
  define W where "W k = weights m (DenseP k)" for k
  define B where "B k = weights m (RnnP (k * embeddingSize))" for k
  define A where "A k = (\<Sum>j \<in> {..<embeddingSize} - {0}.
                          weights m (RnnP (k * embeddingSize + j)) * (weights m (EmbedW 0 j) / q))
                       + rnn_b_ih (rnn m) (weights m) k + rnn_b_hh (rnn m) (weights m) k" for k
  define c where "c = weights m (DenseP hiddenSize)"
  define Z where "Z v = (\<Sum>k < hiddenSize. W k * (tanh (A k + B k * (v / q)) / q)) + c" for v
  define v0 where "v0 = weights m (EmbedW unk 0)"
  have q: "q \<noteq> 0" by (simp add: q_def dropoutRate_def)
  let ?M = "\<lambda>v. (zero_grad m)\<lparr>weights := (weights m)(EmbedW unk 0 := v)\<rparr>"
  have archM: "architecture (?M v) = architecture m0" for v
    using arch by (simp add: architecture_def zero_grad_def)
  have trM: "training (?M v)" for v using tr by (simp add: zero_grad_def)
  have rnnM: "rnn (?M v) = rnn m" for v by (simp add: zero_grad_def)
  have inner: "(\<Sum>j \<in> {..<embeddingSize} - {0}.
                  weights (?M v) (RnnP (k * embeddingSize + j)) * (weights (?M v) (EmbedW 0 j) / q))
             = (\<Sum>j \<in> {..<embeddingSize} - {0}.
                  weights m (RnnP (k * embeddingSize + j)) * (weights m (EmbedW 0 j) / q))" for v k
    by (rule sum.cong) (auto simp add: unk_def)
  have logitM: "logit (?M v) [[0]] [1] 0 = Z v" for v
    unfolding logit_unk [OF init archM] q_def [symmetric] inner rnnM
    by (simp add: Z_def A_def B_def W_def c_def unk_def rnn_b_ih_def rnn_b_hh_def)
  have loss: "bindE (forward rnn_backend (?M v) (seqs unk_batch) (seq_lens unk_batch) g) (\<lambda>(out, g1).
                bindE (squeeze1 out) (\<lambda>p. criterion p (labels unk_batch))) = Inr (ln (1 + exp (Z v)))" for v
    using train_loss_rnn [OF init archM trM unk_batch_well_formed, of v g] logitM [of v]
    by (simp add: unk_batch_def bce_softplus)
  have Zd: "(Z has_real_derivative
               (\<Sum>k < hiddenSize. W k * ((1 - (tanh (A k + B k * (v0 / q)))\<^sup>2) * (B k / q) / q)))
            (at v0)"
    unfolding Z_def using q by (auto intro!: derivative_eq_intros simp add: mult_ac)
  have Ld: "((\<lambda>v. ln (1 + exp (Z v))) has_real_derivative
               (exp (Z v0) / (1 + exp (Z v0))
                * (\<Sum>k < hiddenSize. W k * ((1 - (tanh (A k + B k * (v0 / q)))\<^sup>2) * (B k / q) / q))))
            (at v0)"
    using Zd by (auto intro!: derivative_eq_intros simp add: add_pos_pos)
  have M0: "?M v0 = zero_grad m"
    by (simp add: v0_def zero_grad_def)
  have logit0: "logit (zero_grad m) [[0]] [1] 0 = Z v0"
    using logitM [of v0] by (simp add: M0)
  have arch0: "architecture (zero_grad m) = architecture m0"
    using arch by (simp add: architecture_def zero_grad_def)
  note a = architecture_init [OF init arch0]
  have hid: "hidden_at (zero_grad m) [[0]] 0 (Suc 0) k = tanh (A k + B k * (v0 / q))" for k
    unfolding hidden_unk [OF init arch0]
    by (simp add: A_def B_def v0_def q_def unk_def zero_grad_def)
  have wz: "weights (zero_grad m) = weights m" by (simp add: zero_grad_def)
  have dp: "dpre (zero_grad m) [[0]] [1] [0] 0 0 k
              = sigmoid (Z v0) * W k / q * (1 - (tanh (A k + B k * (v0 / q)))\<^sup>2)" for k
    using logit0 by (simp add: dpre_def dlogit_def hid a(6) q_def [symmetric] W_def wz)
  have grad: "grads (loss_backward rnn_backend g (zero_grad m) unk_batch) (EmbedW unk 0)
                = (\<Sum>k < hiddenSize. sigmoid (Z v0) * W k / q * (1 - (tanh (A k + B k * (v0 / q)))\<^sup>2) * B k) / q"
    unfolding unk_gradient [OF init arch] dp by (simp add: B_def q_def)
  have eq: "(\<Sum>k < hiddenSize. sigmoid (Z v0) * W k / q * (1 - (tanh (A k + B k * (v0 / q)))\<^sup>2) * B k) / q
              = exp (Z v0) / (1 + exp (Z v0))
                * (\<Sum>k < hiddenSize. W k * ((1 - (tanh (A k + B k * (v0 / q)))\<^sup>2) * (B k / q) / q))"
    unfolding sigmoid_exp sum_distrib_left sum_divide_distrib
    by (rule sum.cong) (simp_all add: field_simps)
  show ?thesis unfolding grad eq v0_def [symmetric]
    by (rule exI [of _ "\<lambda>v. ln (1 + exp (Z v))"]) (intro conjI allI loss Ld)
qed

theorem reserved_rows_zero_and_pad_row_frozen_witness:
  "''RNN'' \<in> {''RNN'', ''GRU'', ''LSTM'', ''BiLSTM''}
   \<and> [unk_batch] \<noteq> [] \<and> list_all well_formed_batch [unk_batch]
   \<and> (\<exists>m0 m1. MyRNN_init quarter_init ''RNN'' = Inr m0
         \<and> load_pretrained ones_matrix m0 = Inr m1
         \<and> (\<forall>j<embeddingSize. weights m1 (EmbedW unk j) = 0 \<and> weights m1 (EmbedW pad j) = 0)
         \<and> (\<exists>s printed. train_model rnn_backend [unk_batch] (model_train m1) = Inr (s, printed)
               \<and> (\<forall>j<embeddingSize. weights (model s) (EmbedW pad j) = 0)))"
proof -
  obtain m0 where m0: "MyRNN_init quarter_init ''RNN'' = Inr m0"
    by (simp add: MyRNN_init_eq)
  obtain m1 where m1: "load_pretrained ones_matrix m0 = Inr m1"
    using load_pretrained_ok [OF m0, of ones_matrix] by (auto simp add: ones_matrix_def)
  have tag: "''RNN'' \<in> {''RNN'', ''GRU'', ''LSTM'', ''BiLSTM''}" by simp
  have ne: "[unk_batch] \<noteq> []" by simp
  have wf: "list_all well_formed_batch [unk_batch]" by (simp add: unk_batch_well_formed)
  from reserved_rows_zero_and_pad_row_frozen [OF tag m0 m1 ne wf refl, of rnn_backend] m0 m1 tag ne wf
  show ?thesis by blast
qed

lemma first_step_unk:
  "\<exists>s. first_step rnn_backend quarter_init ''RNN'' ones_matrix unk_batch = Inr s
       \<and> - (1 / 500) < weights (model s) (EmbedW unk 0)
       \<and> weights (model s) (EmbedW unk 0) < 0"
proof -
  obtain m0 where m0: "MyRNN_init quarter_init ''RNN'' = Inr m0"
    by (simp add: MyRNN_init_eq)
  obtain m1 where m1: "load_pretrained ones_matrix m0 = Inr m1"
    using load_pretrained_ok [OF m0, of ones_matrix] by (auto simp add: ones_matrix_def)
  note a = architecture_init [OF m0 refl]
  have dim: "embedding_dim (embed m0) = embeddingSize" by (simp add: a(3))
  note l = load_pretrained_rows [OF m1 dim]
  have w0: "weights m0 = quarter_init" using m0 by (auto simp add: MyRNN_init_eq)
  let ?m = "model_train m1"
  let ?s0 = "\<lparr>model = ?m, optimizer = Adam, gen = manual_seed rnn_backend 0,
              epochLoss = 0\<rparr> :: nat train_state"
  have arch: "architecture ?m = architecture m0"
    using l(2) by (simp add: model_train_def architecture_def)
  have arch0: "architecture (model ?s0) = architecture m0" using arch by simp
  have tag: "''RNN'' \<in> {''RNN'', ''GRU'', ''LSTM'', ''BiLSTM''}" by simp
  from train_batch_ok [OF m0 arch0 tag unk_batch_well_formed, of rnn_backend] obtain s
    where s: "train_batch rnn_backend unk_batch ?s0 = Inr s" by blast
  have dw: "0 < weights ?m (DenseP k)" for k
    using load_pretrained_other_weights(2) [OF m1, of k]
    by (simp add: model_train_def w0 quarter_init_def)
  have rw: "0 < weights ?m (RnnP q)" for q
    using load_pretrained_other_weights(1) [OF m1, of q]
    by (simp add: model_train_def w0 quarter_init_def)
  let ?b = "loss_backward rnn_backend (manual_seed rnn_backend 0) (zero_grad ?m) unk_batch"
  have g: "0 < grads ?b (EmbedW unk 0)"
    by (rule unk_gradient_pos [OF m0 arch dw rw])
  have w: "weights ?b (EmbedW unk 0) = 0"
    using l(1) by (simp add: loss_backward_def zero_grad_def model_train_def embeddingSize_def)
  have ms: "model s = snd (optimizer_step Adam ?b)"
    using train_batch_result(1) [OF s] by simp
  from adam_first_step_bounds [OF refl g w]
  have "- (1 / 500) < weights (snd (optimizer_step Adam ?b)) (EmbedW unk 0)"
    and "weights (snd (optimizer_step Adam ?b)) (EmbedW unk 0) < 0"
    by simp_all
  with s m0 m1 show ?thesis
    by (simp add: first_step_def bindE_def ms)
qed

text \<open>
  Claim C2 (as stated, refuted). The claim says that every optimizer step keeps both
  reserved rows zero. Only the padding index is passed to the embedding; the row of the
  unknown token receives the gradient of every position that holds token 0. The variant
  RNN, with all its initial parameters one quarter and the pretrained vectors loaded, is
  trained on a batch of one negative example that consists of the unknown token. The
  gradient of the loss in an entry of row 0 of the table is positive wherever dropout
  keeps the embedded value (\<open>unk_gradient_is_derivative\<close> shows for entry \<open>(0, 0)\<close> that
  it is the derivative of the loss of the step in that entry, \<open>unk_gradient_pos\<close> that it
  is positive), and the first optimizer step moves such an entry from zero to a negative
  value, about \<open>- 0.001\<close>: after one step the row of the unknown token is no longer zero.
\<close>

theorem unk_row_changed_by_first_step:
  "\<not> isl (first_step rnn_backend quarter_init ''RNN'' ones_matrix unk_batch)
   \<and> (\<exists>j<embeddingSize.
         weights (model (projr (first_step rnn_backend quarter_init ''RNN'' ones_matrix unk_batch)))
           (EmbedW unk j) < 0)"
proof -
  from first_step_unk obtain s
    where s: "first_step rnn_backend quarter_init ''RNN'' ones_matrix unk_batch = Inr s"
      and neg: "weights (model s) (EmbedW unk 0) < 0"
    by blast
  have "0 < embeddingSize" by (simp add: embeddingSize_def)
  with neg have "\<exists>j<embeddingSize. weights (model s) (EmbedW unk j) < 0" by blast
  with s show ?thesis by simp
qed

section \<open>The evaluation cell and the parameters\<close>

lemma eval_batch_frame:
  assumes "eval_batch be b s = Inr s'"
  shows "evaluated s' = evaluated s"
  using assms by (auto simp add: eval_batch_def dest!: bindE_Inr)

lemma eval_steps_frame:
  "eval_steps be bs s = Inr s' \<Longrightarrow> evaluated s' = evaluated s"
proof (induction bs arbitrary: s)
  case Nil
  then show ?case by simp
next
  case (Cons b bs)
  from Cons.prems obtain s1 where s1: "eval_batch be b s = Inr s1"
    and rest: "eval_steps be bs s1 = Inr s'"
    by (auto dest!: bindE_Inr)
  from Cons.IH [OF rest] eval_batch_frame [OF s1] show ?case by simp
qed

lemma eval_one_frame:
  assumes "eval_one be testIterator m g = Inr (m', pct, g')"
  shows "m' = m"
proof -
  from assms obtain s
    where s: "eval_steps be testIterator \<lparr>evaluated = m, eval_gen = g, accuracy = 0\<rparr> = Inr s"
      and m': "m' = evaluated s"
    by (auto simp add: eval_one_def dest!: bindE_Inr split: if_splits)
  from eval_steps_frame [OF s] m' show ?thesis by simp
qed

lemma eval_loop_frame:
  "eval_loop be testIterator models g = Inr (models', printed, g') \<Longrightarrow> models' = models"
proof (induction models arbitrary: g models' printed g')
  case Nil
  then show ?case by simp
next
  case (Cons x models)
  show ?case
  proof (cases x)
    case None
    with Cons.prems obtain ms ps g1
      where rest: "eval_loop be testIterator models g = Inr (ms, ps, g1)"
        and r: "models' = None # ms"
      by (auto dest!: bindE_Inr)
    from Cons.IH [OF rest] r None show ?thesis by simp
  next
    case (Some m)
    with Cons.prems obtain m1 pct g1 ms ps g2
      where one: "eval_one be testIterator m g = Inr (m1, pct, g1)"
        and rest: "eval_loop be testIterator models g1 = Inr (ms, ps, g2)"
        and r: "models' = Some m1 # ms"
      by (auto dest!: bindE_Inr)
    from Cons.IH [OF rest] eval_one_frame [OF one] r Some show ?thesis by simp
  qed
qed

text \<open>
  Claim C9. The evaluation cell leaves every parameter of every model as it was: the
  models after the loops of the cell have the parameters, the gradients and the
  architecture they had before it; the cell changes their mode to evaluation and
  nothing else.
\<close>

theorem evaluation_preserves_parameters:
  assumes "evaluate_all be testIterator models g = Inr (models', printed, g')"
  shows "map (map_option weights) models' = map (map_option weights) models
       \<and> map (map_option grads) models' = map (map_option grads) models
       \<and> map (map_option architecture) models' = map (map_option architecture) models
       \<and> models' = map (map_option (\<lambda>m. m\<lparr>training := False\<rparr>)) models"
proof -
  from assms have m: "models' = map (map_option model_eval) models"
    unfolding evaluate_all_def by (rule eval_loop_frame)
  have w: "weights (model_eval x) = weights x" and gr: "grads (model_eval x) = grads x"
    and a: "architecture (model_eval x) = architecture x" for x
    by (simp_all add: model_eval_def architecture_def)
  have e: "model_eval = (\<lambda>m. m\<lparr>training := False\<rparr>)"
    by (rule ext) (simp add: model_eval_def)
  have "map (map_option weights) models' = map (map_option weights) models"
    and "map (map_option grads) models' = map (map_option grads) models"
    and "map (map_option architecture) models' = map (map_option architecture) models"
    unfolding m by (simp_all add: option.map_comp o_def w gr a)
  moreover have "models' = map (map_option (\<lambda>m. m\<lparr>training := False\<rparr>)) models"
    unfolding m e ..
  ultimately show ?thesis by blast
qed

lemma eval_steps_eval_batches:
  "eval_steps be bs s =
     (case eval_batches be (evaluated s) bs (accuracy s, eval_gen s) of
        Inl e \<Rightarrow> Inl e
      | Inr (a, g) \<Rightarrow> Inr (s\<lparr>eval_gen := g, accuracy := a\<rparr>))"
proof (induction bs arbitrary: s)
  case Nil
  then show ?case by simp
next
  case (Cons b bs)
  show ?case
    by (simp add: eval_batch_def bindE_def Cons.IH split: sum.splits prod.splits)
qed

lemma eval_one_eval_model:
  "eval_one be testIterator m g =
     (case eval_model be testIterator m g of Inl e \<Rightarrow> Inl e | Inr (pct, g') \<Rightarrow> Inr (m, pct, g'))"
  by (simp add: eval_one_def eval_model_def eval_steps_eval_batches bindE_def
      split: sum.splits prod.splits)

theorem evaluation_preserves_parameters_witness:
  "\<exists>m0 models' printed g'.
      MyRNN_init zero_init ''GRU'' = Inr m0
    \<and> evaluate_all const_backend [tiny_batch] [Some m0, None] 0 = Inr (models', printed, g')
    \<and> map (map_option weights) models' = map (map_option weights) [Some m0, None]"
proof -
  obtain m0 where m0: "MyRNN_init zero_init ''GRU'' = Inr m0"
    by (simp add: MyRNN_init_eq)
  have arch: "architecture (model_eval m0) = architecture m0"
    by (simp add: architecture_def model_eval_def)
  have tag: "''GRU'' \<in> {''RNN'', ''GRU'', ''LSTM'', ''BiLSTM''}" by simp
  have wf: "list_all well_formed_batch [tiny_batch]" by (simp add: tiny_batch_well_formed)
  from eval_model_ok [OF m0 arch tag _ wf, of const_backend 0] obtain pct g1
    where "eval_model const_backend [tiny_batch] (model_eval m0) 0 = Inr (pct, g1)" by auto
  then have e: "evaluate_all const_backend [tiny_batch] [Some m0, None] 0
                  = Inr ([Some (model_eval m0), None], [Some pct, None], g1)"
    by (simp add: evaluate_all_def bindE_def eval_one_eval_model)
  from evaluation_preserves_parameters [OF e] m0 e show ?thesis by blast
qed

section \<open>An unrecognized tag\<close>

lemma unrecognized_forward:
  assumes init: "MyRNN_init init ''Transformer'' = Inr m0" and arch: "architecture m = architecture m0"
    and inp: "batch_input tokens lens B"
  shows "\<exists>out g'. forward be m tokens lens g = Inr (Tensor out, g') \<and> shape out = [1, B, 1]"
proof -
  note a = architecture_init [OF init arch]
  let ?e = "\<lparr>shape = [length tokens, B, embeddingSize],
             val = (\<lambda>idx. case idx of [t, b, j] \<Rightarrow> weights m (EmbedW (tokens ! t ! b) j) | _ \<Rightarrow> 0)\<rparr>"
  have e: "embedding_fwd (embed m) (weights m) tokens = Inr ?e"
    using embedding_fwd_ok [OF inp, of "embed m" "weights m"] by (simp add: a(3))
  obtain emb g1 where d1: "dropout_fwd be m (Tensor ?e) g = Inr (Tensor emb, g1)"
    and emb: "shape emb = [length tokens, B, embeddingSize]"
    using dropout_fwd_shape [of be m ?e g] by auto
  have pk: "pack_padded_sequence (Tensor emb) lens = Inr \<lparr>padded = emb, lengths = lens\<rparr>"
    by (rule pack_padded_sequence_ok [OF inp emb]) (simp add: embeddingSize_def)
  let ?pk = "\<lparr>padded = emb, lengths = lens\<rparr>"
  obtain out hn cn where rec: "recurrent be (rnn m) (weights m) ?pk = (out, hn, cn)"
    by (cases "recurrent be (rnn m) (weights m) ?pk") auto
  have lens: "list_all (\<lambda>l. l \<le> length tokens) lens"
    using inp by (auto simp add: batch_input_def list_all_iff)
  have run: "run_rnn be m ?pk =
           Inr (\<lparr>padded = \<lparr>shape = [length tokens, B, hiddenSize], val = out\<rparr>, lengths = lens\<rparr>,
                Tuple (Tensor \<lparr>shape = [1, B, hiddenSize], val = hn\<rparr>)
                      (Tensor \<lparr>shape = [1, B, hiddenSize], val = cn\<rparr>))"
    using lens rec unfolding a(4) by (simp add: run_rnn_def rnn_fwd_def a emb)
  have sel: "select_hidden m (Tuple (Tensor \<lparr>shape = [1, B, hiddenSize], val = hn\<rparr>)
                      (Tensor \<lparr>shape = [1, B, hiddenSize], val = cn\<rparr>))
               = Inr (Tensor \<lparr>shape = [1, B, hiddenSize], val = hn\<rparr>)"
    by (simp add: select_hidden_def index0_def a)
  obtain dr g2 where d2: "dropout_fwd be m (Tensor \<lparr>shape = [1, B, hiddenSize], val = hn\<rparr>) g1
                            = Inr (Tensor dr, g2)"
    and dr: "shape dr = [1, B, hiddenSize]"
    using dropout_fwd_shape [of be m "\<lparr>shape = [1, B, hiddenSize], val = hn\<rparr>" g1] by auto
  obtain res where lin: "linear_fwd (dense m) (weights m) (Tensor dr) = Inr (Tensor res)"
    and res: "shape res = [1, B, 1]"
    using dr by (simp add: linear_fwd_def a(5))
  have "forward be m tokens lens g = Inr (Tensor res, g2)"
    unfolding forward_def e bindE_def
    by (simp add: d1 pk run sel d2 lin pad_packed_sequence_def del: One_nat_def)
  with res show ?thesis by blast
qed

text \<open>
  Claim C1 (the code at a failing input). The claim says that a tag other than RNN,
  GRU, LSTM and BiLSTM is rejected at construction. The constructor has no rejecting
  branch: for the tag \<open>Transformer\<close> it returns a model whose flag \<open>LSTM\<close> is false
  while its recurrent layer is \<^verbatim>\<open>nn.LSTM\<close>. The forward pass of that model takes
  the pair of final states for the hidden state and returns a tensor of shape
  \<open>(1, B, 1)\<close>, on which the loss of the evaluation loop and of the first training
  step raises.
\<close>

theorem unrecognized_tag_accepted_and_unusable:
  "\<exists>m. MyRNN_init init ''Transformer'' = Inr m
      \<and> LSTM m = False \<and> kind (rnn m) = nn_LSTM
      \<and> (\<exists>out g'. forward be (model_eval m) (seqs tiny_batch) (seq_lens tiny_batch) g
                     = Inr (Tensor out, g') \<and> shape out = [1, 2, 1])
      \<and> eval_model be [tiny_batch] (model_eval m) g = Inl ValueError
      \<and> first_step be init ''Transformer'' ones_matrix tiny_batch = Inl ValueError"
proof -
  obtain m where m: "MyRNN_init init ''Transformer'' = Inr m"
    by (simp add: MyRNN_init_eq)
  note a = architecture_init [OF m refl]
  have arch: "architecture (model_eval m) = architecture m"
    by (simp add: architecture_def model_eval_def)
  from unrecognized_forward [OF m arch tiny_batch_input, of be g] obtain out g'
    where fw: "forward be (model_eval m) (seqs tiny_batch) (seq_lens tiny_batch) g = Inr (Tensor out, g')"
      and sh: "shape out = [1, 2, 1]" by blast
  have lab: "length (labels tiny_batch) = 2" by (simp add: tiny_batch_def)
  have ev: "eval_model be [tiny_batch] (model_eval m) g = Inl ValueError"
    using sh by (simp add: eval_model_def bindE_def fw squeeze1_def criterion_def lab)
  obtain m1 where m1: "load_pretrained ones_matrix m = Inr m1"
    using load_pretrained_ok [OF m, of ones_matrix] by (auto simp add: ones_matrix_def)
  have dim: "embedding_dim (embed m) = embeddingSize" by (simp add: a(3))
  have arch1: "architecture (zero_grad (model_train m1)) = architecture m"
    using load_pretrained_rows(2) [OF m1 dim]
    by (simp add: architecture_def zero_grad_def model_train_def)
  from unrecognized_forward [OF m arch1 tiny_batch_input, of be "manual_seed be 0"] obtain out1 g1
    where fw1: "forward be (zero_grad (model_train m1)) (seqs tiny_batch) (seq_lens tiny_batch)
                  (manual_seed be 0) = Inr (Tensor out1, g1)"
      and sh1: "shape out1 = [1, 2, 1]" by blast
  have tr: "first_step be init ''Transformer'' ones_matrix tiny_batch = Inl ValueError"
    using sh1 by (simp add: first_step_def m m1 bindE_def train_batch_def fw1 squeeze1_def
        criterion_def lab)
  from m a(1,4) fw sh ev tr show ?thesis by auto
qed

end
